theory Spec2Isabelle
  imports Complex_Main "HOL-Library.Char_ord" "HOL-Library.List_Lexorder"
begin

section \<open>Numeric cells\<close>

text \<open>
  A numeric cell of a pandas column is a float64. It is modelled as an exact rational, or one
  of the three special values a float can hold. A missing cell and a cell that
  \<^verbatim>\<open>pd.to_numeric(errors="coerce")\<close> could not parse are both \<open>NaN\<close>, as in pandas.
  Rounding of floating-point arithmetic is not modelled.
\<close>

datatype pyfloat = Fin rat | PInf | NInf | NaN

fun isna :: "pyfloat \<Rightarrow> bool" where
  "isna NaN = True"
| "isna _ = False"

fun fillna :: "pyfloat \<Rightarrow> pyfloat \<Rightarrow> pyfloat" where
  "fillna v NaN = v"
| "fillna v x = x"

text \<open>\<^verbatim>\<open>s.clip(0, 1)\<close>: NaN stays NaN, the infinities go to the bounds.\<close>

fun clip01 :: "pyfloat \<Rightarrow> pyfloat" where
  "clip01 (Fin x) = Fin (max 0 (min 1 x))"
| "clip01 PInf = Fin 1"
| "clip01 NInf = Fin 0"
| "clip01 NaN = NaN"

text \<open>Comparisons with NaN are false.\<close>

fun flt :: "pyfloat \<Rightarrow> pyfloat \<Rightarrow> bool" where
  "flt (Fin a) (Fin b) = (a < b)"
| "flt NInf (Fin b) = True"
| "flt NInf PInf = True"
| "flt (Fin a) PInf = True"
| "flt _ _ = False"

definition fgt :: "pyfloat \<Rightarrow> pyfloat \<Rightarrow> bool" where
  "fgt a b = flt b a"

fun fadd :: "pyfloat \<Rightarrow> pyfloat \<Rightarrow> pyfloat" where
  "fadd (Fin a) (Fin b) = Fin (a + b)"
| "fadd NaN _ = NaN"
| "fadd _ NaN = NaN"
| "fadd PInf NInf = NaN"
| "fadd NInf PInf = NaN"
| "fadd PInf _ = PInf"
| "fadd _ PInf = PInf"
| "fadd NInf _ = NInf"
| "fadd _ NInf = NInf"

fun fmul :: "pyfloat \<Rightarrow> pyfloat \<Rightarrow> pyfloat" where
  "fmul (Fin a) (Fin b) = Fin (a * b)"
| "fmul NaN _ = NaN"
| "fmul _ NaN = NaN"
| "fmul (Fin a) PInf = (if a = 0 then NaN else if 0 < a then PInf else NInf)"
| "fmul (Fin a) NInf = (if a = 0 then NaN else if 0 < a then NInf else PInf)"
| "fmul PInf (Fin b) = (if b = 0 then NaN else if 0 < b then PInf else NInf)"
| "fmul NInf (Fin b) = (if b = 0 then NaN else if 0 < b then NInf else PInf)"
| "fmul PInf PInf = PInf"
| "fmul NInf NInf = PInf"
| "fmul PInf NInf = NInf"
| "fmul NInf PInf = NInf"

text \<open>
  Float division as numpy does it on a Series: a finite non-zero value over zero is an
  infinity, zero over zero is NaN; nothing raises.
\<close>

fun fdiv :: "pyfloat \<Rightarrow> pyfloat \<Rightarrow> pyfloat" where
  "fdiv (Fin a) (Fin b) =
     (if b = 0 then (if a = 0 then NaN else if 0 < a then PInf else NInf) else Fin (a / b))"
| "fdiv NaN _ = NaN"
| "fdiv _ NaN = NaN"
| "fdiv (Fin a) PInf = Fin 0"
| "fdiv (Fin a) NInf = Fin 0"
| "fdiv PInf (Fin b) = (if 0 \<le> b then PInf else NInf)"
| "fdiv NInf (Fin b) = (if 0 \<le> b then NInf else PInf)"
| "fdiv PInf PInf = NaN"
| "fdiv PInf NInf = NaN"
| "fdiv NInf PInf = NaN"
| "fdiv NInf NInf = NaN"

definition finite01 :: "pyfloat \<Rightarrow> bool" where
  "finite01 v = (case v of Fin x \<Rightarrow> 0 \<le> x \<and> x \<le> 1 | _ \<Rightarrow> False)"

definition clamp01 :: "rat \<Rightarrow> rat" where
  "clamp01 x = max 0 (min 1 x)"

section \<open>Strings\<close>

text \<open>
  Strings are lists of characters; a letter outside ASCII is the bytes of its UTF-8 encoding.
  \<^verbatim>\<open>str.upper\<close>, \<^verbatim>\<open>str.lower\<close> and \<^verbatim>\<open>str.strip\<close> are modelled on ASCII: the bytes of other
  letters are left as they are, and white space is the ASCII characters for which
  \<^verbatim>\<open>str.isspace\<close> holds (the blank, the controls 9 to 13 and the separators 28 to 31).
\<close>

definition is_space :: "char \<Rightarrow> bool" where
  "is_space c =
     (c = CHR '' '' \<or> (CHR 0x09 \<le> c \<and> c \<le> CHR 0x0D) \<or> (CHR 0x1C \<le> c \<and> c \<le> CHR 0x1F))"

definition lower_char :: "char \<Rightarrow> char" where
  "lower_char c =
     (if CHR ''A'' \<le> c \<and> c \<le> CHR ''Z'' then char_of (of_char c + (32::int)) else c)"

definition upper_char :: "char \<Rightarrow> char" where
  "upper_char c =
     (if CHR ''a'' \<le> c \<and> c \<le> CHR ''z'' then char_of (of_char c - (32::int)) else c)"

definition lower :: "string \<Rightarrow> string" where
  "lower s = map lower_char s"

definition upper :: "string \<Rightarrow> string" where
  "upper s = map upper_char s"

definition strip_chars :: "(char \<Rightarrow> bool) \<Rightarrow> string \<Rightarrow> string" where
  "strip_chars p s = rev (dropWhile p (rev (dropWhile p s)))"

definition strip :: "string \<Rightarrow> string" where
  "strip s = strip_chars is_space s"

section \<open>AIR-9: the modernity scorer (air9_compute_scores.py)\<close>

definition MIN_FLEET :: rat where
  "MIN_FLEET = 5"

text \<open>
  \<^verbatim>\<open>to_prop\<close>: a value above 1 is read as a percentage and divided by 100, a missing value
  becomes 0, and the result is clipped to the unit interval.
\<close>

definition to_prop :: "pyfloat \<Rightarrow> pyfloat" where
  "to_prop s = clip01 (fillna (Fin 0) (if fgt s (Fin 1) then fdiv s (Fin 100) else s))"

text \<open>
  One row of \<^verbatim>\<open>features_by_airline.csv\<close>. A field of type \<open>pyfloat option\<close> is \<open>None\<close>
  when the table has no such column. \<open>fr_fleet_size\<close> is the cell of the \<^verbatim>\<open>fleet_size\<close>
  column when line 60 of the script is reached (NaN when it is missing); the completion of
  that column from the AIR3 workbook is outside this model.
\<close>

record feat_row =
  fr_airline :: string
  fr_fleet_size :: pyfloat
  fr_n_models :: "pyfloat option"
  fr_diversity :: "pyfloat option"
  fr_pct_neo :: "pyfloat option"
  fr_pct_max :: "pyfloat option"
  fr_pct_a220 :: "pyfloat option"
  fr_pct_787 :: "pyfloat option"
  fr_pct_a350 :: "pyfloat option"
  fr_pct_a330neo :: "pyfloat option"
  fr_pct_newgen_narrow :: "pyfloat option"
  fr_pct_newgen_wide :: "pyfloat option"

record score_row =
  sr_airline :: string
  sr_fleet_size :: pyfloat
  sr_diversity :: pyfloat
  sr_modernity_index :: pyfloat
  sr_version_v1 :: string
  sr_qa_notes :: string

datatype error = AttributeError | SystemExit | TypeError

text \<open>Line 60: \<^verbatim>\<open>feat["fleet_size"] = to_num(feat["fleet_size"]).fillna(0)\<close>.\<close>

definition fleet_size_clean :: "feat_row \<Rightarrow> pyfloat" where
  "fleet_size_clean r = fillna (Fin 0) (fr_fleet_size r)"

text \<open>
  Lines 63-67. Without a \<^verbatim>\<open>diversity\<close> column it is recomputed from \<^verbatim>\<open>n_models\<close>; without
  \<^verbatim>\<open>n_models\<close> either, \<^verbatim>\<open>feat.get("n_models", 0)\<close> is the scalar 0, which has no
  \<^verbatim>\<open>fillna\<close>, and the script stops.
\<close>

definition diversity :: "feat_row \<Rightarrow> error + pyfloat" where
  "diversity r =
     (case fr_diversity r of
        Some d \<Rightarrow> Inr (to_prop d)
      | None \<Rightarrow>
          (case fr_n_models r of
             None \<Rightarrow> Inl AttributeError
           | Some n \<Rightarrow>
               (let q = fdiv (fillna (Fin 0) n) (fleet_size_clean r);
                    q' = (if q = PInf then Fin 0 else q)
                in Inr (clip01 (fillna (Fin 0) q')))))"

text \<open>Line 76: an absent unit column is created as 0; line 77: \<^verbatim>\<open>to_prop\<close>.\<close>

definition unit_prop :: "pyfloat option \<Rightarrow> pyfloat" where
  "unit_prop c = to_prop (case c of None \<Rightarrow> Fin 0 | Some v \<Rightarrow> v)"

text \<open>Lines 73-82: the two grouped components, rebuilt unless both columns are present.\<close>

definition both_grouped :: "feat_row \<Rightarrow> bool" where
  "both_grouped r = (fr_pct_newgen_narrow r \<noteq> None \<and> fr_pct_newgen_wide r \<noteq> None)"

definition pct_newgen_narrow :: "feat_row \<Rightarrow> pyfloat" where
  "pct_newgen_narrow r =
     (if \<not> both_grouped r
      then clip01 (fadd (fadd (unit_prop (fr_pct_neo r)) (unit_prop (fr_pct_max r)))
                        (unit_prop (fr_pct_a220 r)))
      else to_prop (the (fr_pct_newgen_narrow r)))"

definition pct_newgen_wide :: "feat_row \<Rightarrow> pyfloat" where
  "pct_newgen_wide r =
     (if \<not> both_grouped r
      then clip01 (fadd (fadd (unit_prop (fr_pct_787 r)) (unit_prop (fr_pct_a350 r)))
                        (unit_prop (fr_pct_a330neo r)))
      else to_prop (the (fr_pct_newgen_wide r)))"

text \<open>
  Lines 85-87. When the grouped columns were rebuilt, \<^verbatim>\<open>pct_a220\<close> has already been through
  \<^verbatim>\<open>to_prop\<close> once (line 77) and goes through it again.
\<close>

definition pct_a220 :: "feat_row \<Rightarrow> pyfloat" where
  "pct_a220 r =
     (if \<not> both_grouped r then to_prop (unit_prop (fr_pct_a220 r))
      else to_prop (case fr_pct_a220 r of None \<Rightarrow> Fin 0 | Some v \<Rightarrow> v))"

text \<open>Lines 90-94.\<close>

definition modernity_index :: "feat_row \<Rightarrow> pyfloat" where
  "modernity_index r =
     clip01 (fadd (fadd (fmul (Fin (4 / 10)) (fillna (Fin 0) (pct_newgen_narrow r)))
                        (fmul (Fin (4 / 10)) (fillna (Fin 0) (pct_newgen_wide r))))
                  (fmul (Fin (2 / 10)) (fillna (Fin 0) (pct_a220 r))))"

text \<open>
  Lines 97-105. The notes start empty; each condition appends its flag after a semicolon and
  strips semicolons from both ends. The components are tested for NaN as they stand at this
  point, that is after \<^verbatim>\<open>to_prop\<close>.
\<close>

definition strip_semi :: "string \<Rightarrow> string" where
  "strip_semi s = strip_chars (\<lambda>c. c = CHR '';'') s"

definition missing_components :: "feat_row \<Rightarrow> bool" where
  "missing_components r =
     (isna (pct_newgen_narrow r) \<or> isna (pct_newgen_wide r) \<or> isna (pct_a220 r))"

definition qa_notes :: "feat_row \<Rightarrow> string" where
  "qa_notes r =
     (let qa = [];
          qa1 = (if flt (fleet_size_clean r) (Fin MIN_FLEET)
                 then strip_semi (qa @ '';fleet_too_small'') else qa);
          qa2 = (if missing_components r
                 then strip_semi (qa1 @ '';missing_component'') else qa1)
      in qa2)"

definition score_row :: "feat_row \<Rightarrow> error + score_row" where
  "score_row r =
     (case diversity r of
        Inl e \<Rightarrow> Inl e
      | Inr d \<Rightarrow>
          Inr \<lparr> sr_airline = fr_airline r,
                sr_fleet_size = fleet_size_clean r,
                sr_diversity = d,
                sr_modernity_index = modernity_index r,
                sr_version_v1 = ''v1'',
                sr_qa_notes = qa_notes r \<rparr>)"

text \<open>The notes of a row, cut at the semicolons.\<close>

fun split_on :: "char \<Rightarrow> string \<Rightarrow> string list" where
  "split_on c [] = [[]]"
| "split_on c (x # xs) =
     (if x = c then [] # split_on c xs
      else (case split_on c xs of w # ws \<Rightarrow> (x # w) # ws | [] \<Rightarrow> [[x]]))"

section \<open>Regular expressions\<close>

text \<open>
  The patterns of the classifier, as syntax trees. \<^verbatim>\<open>re.search\<close> asks whether the pattern
  matches at some position of the string; \<open>match_at\<close> returns every position at which a match
  starting at the given position can end, so that the search succeeds exactly when one of
  them is non-empty. A position keeps the character before it, which \<^verbatim>\<open>\b\<close> and \<^verbatim>\<open>^\<close> read.
  \<^verbatim>\<open>\w\<close>, \<^verbatim>\<open>\d\<close> and \<^verbatim>\<open>\s\<close> are modelled on ASCII.
\<close>

datatype re =
    Lit char
  | Cls "char list"
  | Digit
  | WordC
  | SpaceC
  | AnyStar
  | Bnd
  | Bol
  | Eps
  | Seq re re
  | Alt re re
  | Opt re

type_synonym pos = "char option \<times> string"

definition is_digit :: "char \<Rightarrow> bool" where
  "is_digit c = (CHR ''0'' \<le> c \<and> c \<le> CHR ''9'')"

definition is_word_char :: "char \<Rightarrow> bool" where
  "is_word_char c =
     ((CHR ''a'' \<le> c \<and> c \<le> CHR ''z'') \<or> (CHR ''A'' \<le> c \<and> c \<le> CHR ''Z'')
      \<or> is_digit c \<or> c = CHR ''_'')"

definition char_eq :: "bool \<Rightarrow> char \<Rightarrow> char \<Rightarrow> bool" where
  "char_eq ci c x = (if ci then lower_char x = lower_char c else x = c)"

fun consume :: "(char \<Rightarrow> bool) \<Rightarrow> pos \<Rightarrow> pos list" where
  "consume ok (p, []) = []"
| "consume ok (p, x # xs) = (if ok x then [(Some x, xs)] else [])"

fun at_boundary :: "pos \<Rightarrow> bool" where
  "at_boundary (p, s) =
     ((case p of None \<Rightarrow> False | Some c \<Rightarrow> is_word_char c)
      \<noteq> (case s of [] \<Rightarrow> False | x # _ \<Rightarrow> is_word_char x))"

text \<open>\<^verbatim>\<open>.*\<close>: any run of characters other than a newline.\<close>

fun any_star :: "pos \<Rightarrow> pos list" where
  "any_star (p, []) = [(p, [])]"
| "any_star (p, x # xs) = (p, x # xs) # (if x = CHR 0x0A then [] else any_star (Some x, xs))"

fun match_at :: "bool \<Rightarrow> re \<Rightarrow> pos \<Rightarrow> pos list" where
  "match_at ci (Lit c) q = consume (char_eq ci c) q"
| "match_at ci (Cls cs) q = consume (\<lambda>x. list_ex (\<lambda>c. char_eq ci c x) cs) q"
| "match_at ci Digit q = consume is_digit q"
| "match_at ci WordC q = consume is_word_char q"
| "match_at ci SpaceC q = consume is_space q"
| "match_at ci AnyStar q = any_star q"
| "match_at ci Bnd q = (if at_boundary q then [q] else [])"
| "match_at ci Bol q = (if fst q = None then [q] else [])"
| "match_at ci Eps q = [q]"
| "match_at ci (Seq a b) q = concat (map (match_at ci b) (match_at ci a q))"
| "match_at ci (Alt a b) q = match_at ci a q @ match_at ci b q"
| "match_at ci (Opt a) q = match_at ci a q @ [q]"

fun starts :: "pos \<Rightarrow> pos list" where
  "starts (p, []) = [(p, [])]"
| "starts (p, x # xs) = (p, x # xs) # starts (Some x, xs)"

definition search :: "bool \<Rightarrow> re \<Rightarrow> string \<Rightarrow> bool" where
  "search ci r s = list_ex (\<lambda>q. match_at ci r q \<noteq> []) (starts (None, s))"

text \<open>Abbreviations for writing patterns: a literal word, a sequence, a choice.\<close>

definition word :: "string \<Rightarrow> re" where
  "word s = foldr (\<lambda>c r. Seq (Lit c) r) s Eps"

definition seqs :: "re list \<Rightarrow> re" where
  "seqs rs = foldr Seq rs Eps"

fun alts :: "re list \<Rightarrow> re" where
  "alts [] = Cls []"
| "alts [r] = r"
| "alts (r # rs) = Alt r (alts rs)"

section \<open>The aircraft classifier (build_features.py, PAT and tag_family)\<close>

text \<open>\<^verbatim>\<open>\b(a220-?1(00)?|a220-?3(00)?|cs100|cs300|bd-500-1a1[01])\b\<close>\<close>

definition PAT_a220 :: re where
  "PAT_a220 =
     seqs [Bnd,
       alts [seqs [word ''a220'', Opt (Lit CHR ''-''), word ''1'', Opt (word ''00'')],
             seqs [word ''a220'', Opt (Lit CHR ''-''), word ''3'', Opt (word ''00'')],
             word ''cs100'', word ''cs300'',
             seqs [word ''bd-500-1a1'', Cls ''01'']],
       Bnd]"

text \<open>\<^verbatim>\<open>\b787\b\<close>\<close>

definition PAT_b787 :: re where
  "PAT_b787 = seqs [Bnd, word ''787'', Bnd]"

text \<open>\<^verbatim>\<open>\ba350\b\<close>\<close>

definition PAT_a350 :: re where
  "PAT_a350 = seqs [Bnd, word ''a350'', Bnd]"

text \<open>\<^verbatim>\<open>\b(a330-800|a330-900|a330neo|a330-?9?00?neo)\b\<close>\<close>

definition PAT_a330neo :: re where
  "PAT_a330neo =
     seqs [Bnd,
       alts [word ''a330-800'', word ''a330-900'', word ''a330neo'',
             seqs [word ''a330'', Opt (Lit CHR ''-''), Opt (Lit CHR ''9''), Lit CHR ''0'',
                   Opt (Lit CHR ''0''), word ''neo'']],
       Bnd]"

text \<open>\<^verbatim>\<open>\b(a31[9]|a32[01])[- ]?\d{2,3}n\b|\b(a31[9]|a32[01])neo\b\<close>\<close>

definition PAT_neo :: re where
  "PAT_neo =
     Alt (seqs [Bnd,
                alts [seqs [word ''a31'', Cls ''9''], seqs [word ''a32'', Cls ''01'']],
                Opt (Cls ''- ''), Digit, Digit, Opt Digit, Lit CHR ''n'', Bnd])
         (seqs [Bnd,
                alts [seqs [word ''a31'', Cls ''9''], seqs [word ''a32'', Cls ''01'']],
                word ''neo'', Bnd])"

text \<open>\<^verbatim>\<open>\b(737[- ]?max|7m7|7m8|7m9|7mj|max ?(7|8|9|10))\b\<close>\<close>

definition PAT_max :: re where
  "PAT_max =
     seqs [Bnd,
       alts [seqs [word ''737'', Opt (Cls ''- ''), word ''max''],
             word ''7m7'', word ''7m8'', word ''7m9'', word ''7mj'',
             seqs [word ''max'', Opt (Lit CHR '' ''),
                   alts [word ''7'', word ''8'', word ''9'', word ''10'']]],
       Bnd]"

record family_tags =
  is_a220 :: bool
  is_787 :: bool
  is_a350 :: bool
  is_a330neo :: bool
  is_neo :: bool
  is_max :: bool

text \<open>The patterns are compiled with \<^verbatim>\<open>re.I\<close> and searched in the lower-cased model.\<close>

definition tag_family :: "string \<Rightarrow> family_tags" where
  "tag_family model =
     (let s = lower model
      in \<lparr> is_a220 = search True PAT_a220 s,
            is_787 = search True PAT_b787 s,
            is_a350 = search True PAT_a350 s,
            is_a330neo = search True PAT_a330neo s,
            is_neo = search True PAT_neo s,
            is_max = search True PAT_max s \<rparr>)"

section \<open>The legacy new-generation flag (air1_generate_features.py)\<close>

text \<open>\<^verbatim>\<open>(^|\s)b?737-N\b\<close>, the shape of five of the patterns below.\<close>

definition b737_dash :: "string \<Rightarrow> re" where
  "b737_dash suffix =
     seqs [Alt Bol SpaceC, Opt (Lit CHR ''b''), word ''737-'', word suffix, Bnd]"

definition NEWGEN_PATTERNS :: "re list" where
  "NEWGEN_PATTERNS =
     [seqs [Bnd, word ''neo'', Bnd],
      seqs [Bnd, word ''a32'', Digit, word ''neo'', Bnd],
      seqs [Bnd, word ''a32'', Digit, word ''-2'', Digit, Digit, Lit CHR ''n'', Opt WordC, Bnd],
      seqs [Bnd, word ''a31'', Digit, word ''-1'', Digit, Digit, Lit CHR ''n'', Opt WordC, Bnd],
      seqs [Bnd, word ''a321'', Opt SpaceC, word ''xlr'', Bnd],
      seqs [Bnd, word ''a321'', Opt SpaceC, word ''lr'', Bnd],
      seqs [Bnd, word ''787'', Bnd],
      seqs [Bnd, word ''a350'', Bnd],
      seqs [Bnd, word ''a330neo'', Bnd],
      seqs [Bnd, word ''a330-9'', Digit, Digit, Bnd],
      seqs [Bnd, word ''a330-8'', Digit, Digit, Bnd],
      seqs [Bnd, word ''max'', Bnd],
      b737_dash ''7'',
      b737_dash ''8'',
      b737_dash ''9'',
      b737_dash ''10'',
      b737_dash ''8-200'',
      seqs [Bnd, word ''a220'', Bnd],
      seqs [Bnd, word ''cs'', Alt (word ''100'') (word ''300''), Bnd],
      word ''cseries'',
      seqs [word ''embraer'', AnyStar, Bnd, word ''e2'', Bnd],
      seqs [Bnd, word ''e19'', Cls ''05'', word ''-e2'', Bnd],
      seqs [Bnd, word ''e19'', Cls ''05'', word ''-2'', Bnd],
      seqs [Bnd, word ''e2'', Bnd],
      seqs [Bnd, word ''777x'', Bnd]]"

text \<open>
  The argument is the model after \<^verbatim>\<open>normalize_text_series\<close>, always a string. The patterns
  are searched without flags in the lower-cased model.
\<close>

definition detect_new_gen :: "string \<Rightarrow> nat" where
  "detect_new_gen model =
     (let m = lower model
      in if list_ex (\<lambda>pat. search False pat m) NEWGEN_PATTERNS then 1 else 0)"

section \<open>The raw dataset\<close>

text \<open>
  One row of the sheet \<^verbatim>\<open>data\<close> of \<^verbatim>\<open>source/dataset.xlsx\<close>: one aircraft. An empty cell is
  \<open>None\<close>. \<^verbatim>\<open>str\<close> of an empty cell is the text \<^verbatim>\<open>nan\<close>.
\<close>

record raw_row =
  rw_airline_name :: "string option"
  rw_model :: "string option"
  rw_country :: "string option"

definition py_str :: "string option \<Rightarrow> string" where
  "py_str v = (case v of None \<Rightarrow> ''nan'' | Some s \<Rightarrow> s)"

text \<open>
  The tables of the Unicode database that the scripts read through \<^verbatim>\<open>unicodedata\<close> are a
  parameter: \<open>nfkd\<close> is \<^verbatim>\<open>unicodedata.normalize("NFKD", s)\<close> and \<open>drop_combining\<close> removes
  the characters \<^verbatim>\<open>ch\<close> with \<^verbatim>\<open>unicodedata.combining(ch)\<close>. On ASCII text both are the
  identity, which is \<open>ascii_unicodedata\<close>.
\<close>

record unicodedata =
  nfkd :: "string \<Rightarrow> string"
  drop_combining :: "string \<Rightarrow> string"

definition ascii_unicodedata :: unicodedata where
  "ascii_unicodedata = \<lparr> nfkd = (\<lambda>s. s), drop_combining = (\<lambda>s. s) \<rparr>"

text \<open>\<^verbatim>\<open>drop_duplicates()\<close> keeps the first of equal rows, in the order of the table.\<close>

definition drop_duplicates :: "'a list \<Rightarrow> 'a list" where
  "drop_duplicates xs = rev (remdups (rev xs))"

definition nunique :: "'a list \<Rightarrow> nat" where
  "nunique xs = length (remdups xs)"

section \<open>AIR-1: features and index V0 (air1_generate_features.py)\<close>

definition MIN_FLEET_air1 :: nat where
  "MIN_FLEET_air1 = 5"

text \<open>
  \<^verbatim>\<open>normalize_text_series\<close>: text, trimmed, NFKD, non-ASCII dropped, upper case. A byte
  belongs to a character outside ASCII exactly when its highest bit is set.
\<close>

definition normalize_text :: "unicodedata \<Rightarrow> string option \<Rightarrow> string" where
  "normalize_text U v = upper (filter (\<lambda>c. \<not> digit7 c) (nfkd U (strip (py_str v))))"

record work_row =
  wk_airline :: string
  wk_model :: string
  wk_new_gen :: nat

definition work :: "unicodedata \<Rightarrow> raw_row list \<Rightarrow> work_row list" where
  "work U df =
     map (\<lambda>r. let m = normalize_text U (rw_model r)
               in \<lparr> wk_airline = normalize_text U (rw_airline_name r), wk_model = m,
                     wk_new_gen = detect_new_gen m \<rparr>) df"

record air1_row =
  a1_airline :: string
  a1_fleet_size :: nat
  a1_models_diversity :: nat
  a1_new_gen_share :: rat
  a1_indice_modernite_v0 :: rat
  a1_low_fleet_flag :: nat
  a1_indice_public :: pyfloat
  a1_indice_penalise :: rat

text \<open>
  Lines 136-151: one row per airline (the groups come out sorted by key), with the size of
  the group, the number of distinct models, the mean of the flag, and the three indices.
\<close>

definition air1_group :: "work_row list \<Rightarrow> string \<Rightarrow> air1_row" where
  "air1_group w k =
     (let g = filter (\<lambda>r. wk_airline r = k) w;
          fleet_size = length g;
          new_gen_share = rat_of_nat (sum_list (map wk_new_gen g)) / rat_of_nat (length g);
          v0 = new_gen_share
      in \<lparr> a1_airline = k,
            a1_fleet_size = fleet_size,
            a1_models_diversity = nunique (map wk_model g),
            a1_new_gen_share = new_gen_share,
            a1_indice_modernite_v0 = v0,
            a1_low_fleet_flag = (if fleet_size < MIN_FLEET_air1 then 1 else 0),
            a1_indice_public = (if fleet_size \<ge> MIN_FLEET_air1 then Fin v0 else NaN),
            a1_indice_penalise =
              v0 * min 1 (rat_of_nat fleet_size / rat_of_nat MIN_FLEET_air1) \<rparr>)"

definition air1_agg :: "unicodedata \<Rightarrow> raw_row list \<Rightarrow> air1_row list" where
  "air1_agg U df =
     (let w = work U df
      in map (air1_group w) (sort (remdups (map wk_airline w))))"

section \<open>AIR-5: the features table (build_features.py)\<close>

definition norm_name :: "string option \<Rightarrow> string" where
  "norm_name s = upper (strip (py_str s))"

text \<open>
  \<^verbatim>\<open>ratio\<close> works on whole columns. A missing numerator is 0. \<^verbatim>\<open>den.replace(0, pd.NA)\<close> turns
  a column of numbers in which a 0 was found into a column of objects that holds \<^verbatim>\<open>pd.NA\<close>;
  the quotient is then a column of objects holding \<^verbatim>\<open>pd.NA\<close> as well, and \<^verbatim>\<open>astype(float)\<close>
  raises \<^verbatim>\<open>TypeError\<close> on it. Without a 0 among the denominators nothing is replaced: the
  quotients are floats, a missing quotient becomes 0, and the result is clipped.
\<close>

definition ratio :: "pyfloat list \<Rightarrow> pyfloat list \<Rightarrow> error + pyfloat list" where
  "ratio num den =
     (let num' = map (fillna (Fin 0)) num
      in if list_ex (\<lambda>d. d = Fin 0) den then Inl TypeError
         else Inr (map (\<lambda>(n, d). clip01 (fillna (Fin 0) (fdiv n d))) (zip num' den)))"

text \<open>A step that may raise, followed by the rest of the script.\<close>

definition and_then :: "error + 'a \<Rightarrow> ('a \<Rightarrow> error + 'b) \<Rightarrow> error + 'b" where
  "and_then m f = (case m of Inl e \<Rightarrow> Inl e | Inr x \<Rightarrow> f x)"

text \<open>
  One row of the aggregated workbook \<^verbatim>\<open>release/AIR3_dataset_v1.xlsx\<close>. The columns
  \<^verbatim>\<open>airline\<close> and \<^verbatim>\<open>fleet_size\<close> are required; a field of type \<open>pyfloat option\<close> is \<open>None\<close>
  when the workbook has no such column.
\<close>

record agg_row =
  ag_airline :: "string option"
  ag_fleet_size :: pyfloat
  ag_new_gen_share :: "pyfloat option"
  ag_indice_modernite_v0 :: "pyfloat option"
  ag_indice_public :: "pyfloat option"
  ag_indice_penalise :: "pyfloat option"

text \<open>Lines 73-77: the number of distinct non-empty models of each normalised airline.\<close>

definition n_models_table :: "raw_row list \<Rightarrow> (string \<times> nat) list" where
  "n_models_table raw =
     map (\<lambda>k. (k, nunique (map the (filter (\<lambda>m. m \<noteq> None)
                     (map rw_model (filter (\<lambda>r. norm_name (rw_airline_name r) = k) raw))))))
         (sort (remdups (map (\<lambda>r. norm_name (rw_airline_name r)) raw)))"

text \<open>Lines 93-95: the distinct pairs of normalised airline and non-empty model.\<close>

definition models_by_airline :: "raw_row list \<Rightarrow> (string \<times> string) list" where
  "models_by_airline raw =
     drop_duplicates
       (map (\<lambda>r. (norm_name (rw_airline_name r), the (rw_model r)))
            (filter (\<lambda>r. rw_model r \<noteq> None) raw))"

text \<open>Lines 108-118: per airline, the number of its distinct models that carry a tag.\<close>

definition count_tag :: "(family_tags \<Rightarrow> bool) \<Rightarrow> raw_row list \<Rightarrow> string \<Rightarrow> nat" where
  "count_tag tag raw k =
     length (filter (\<lambda>(a, m). a = k \<and> tag (tag_family m)) (models_by_airline raw))"

record features =
  ft_airline :: "string option"
  ft_fleet_size :: pyfloat
  ft_n_models :: pyfloat
  ft_diversity :: pyfloat
  ft_new_gen_share :: pyfloat
  ft_indice_modernite_v0 :: pyfloat
  ft_indice_public :: pyfloat
  ft_indice_penalise :: pyfloat
  ft_n_a220 :: pyfloat
  ft_n_787 :: pyfloat
  ft_n_a350 :: pyfloat
  ft_n_a330neo :: pyfloat
  ft_n_neo :: pyfloat
  ft_n_max :: pyfloat
  ft_pct_a220 :: pyfloat
  ft_pct_787 :: pyfloat
  ft_pct_a350 :: pyfloat
  ft_pct_a330neo :: pyfloat
  ft_pct_neo :: pyfloat
  ft_pct_max :: pyfloat
  ft_pct_newgen_narrow :: pyfloat
  ft_pct_newgen_wide :: pyfloat

text \<open>
  Lines 53-54: without a \<^verbatim>\<open>new_gen_share\<close> column, the column \<^verbatim>\<open>indice_modernite_v0\<close> stands
  in for it when there is one.
\<close>

definition new_gen_share :: "agg_row \<Rightarrow> pyfloat option" where
  "new_gen_share a =
     (case ag_new_gen_share a of Some v \<Rightarrow> Some v | None \<Rightarrow> ag_indice_modernite_v0 a)"

definition small_fleet :: "pyfloat \<Rightarrow> bool" where
  "small_fleet fs = (isna fs \<or> flt fs (Fin MIN_FLEET))"

text \<open>
  Lines 144-152. With a share column the two indices are recomputed; without one they are
  the workbook's own columns, or 0 when it has none (line 183).
\<close>

definition indice_public :: "agg_row \<Rightarrow> pyfloat" where
  "indice_public a =
     (case new_gen_share a of
        Some ngs \<Rightarrow> (if small_fleet (ag_fleet_size a) then Fin 0 else ngs)
      | None \<Rightarrow> (case ag_indice_public a of Some v \<Rightarrow> v | None \<Rightarrow> Fin 0))"

definition indice_penalise :: "agg_row \<Rightarrow> pyfloat" where
  "indice_penalise a =
     (case new_gen_share a of
        Some ngs \<Rightarrow> (if small_fleet (ag_fleet_size a) then fmul ngs (Fin (8 / 10)) else ngs)
      | None \<Rightarrow> (case ag_indice_penalise a of Some v \<Rightarrow> v | None \<Rightarrow> Fin 0))"

text \<open>
  Lines 124-134 and 155-157: the row of one airline after the left join with the counts. An
  airline that the raw data does not know gets missing counts, which become 0.
\<close>

record counted =
  cn_agg :: agg_row
  cn_n_models :: pyfloat
  cn_n_a220 :: pyfloat
  cn_n_787 :: pyfloat
  cn_n_a350 :: pyfloat
  cn_n_a330neo :: pyfloat
  cn_n_neo :: pyfloat
  cn_n_max :: pyfloat

definition counted_row :: "raw_row list \<Rightarrow> agg_row \<Rightarrow> counted" where
  "counted_row raw a =
     (let k = norm_name (ag_airline a);
          n_models = fillna (Fin 0)
            (case map_of (n_models_table raw) k of None \<Rightarrow> NaN | Some n \<Rightarrow> Fin (rat_of_nat n));
          cnt = (\<lambda>tag. fillna (Fin 0)
            (case map_of (n_models_table raw) k of
               None \<Rightarrow> NaN | Some _ \<Rightarrow> Fin (rat_of_nat (count_tag tag raw k))))
      in \<lparr> cn_agg = a, cn_n_models = n_models, cn_n_a220 = cnt is_a220, cn_n_787 = cnt is_787,
            cn_n_a350 = cnt is_a350, cn_n_a330neo = cnt is_a330neo, cn_n_neo = cnt is_neo,
            cn_n_max = cnt is_max \<rparr>)"

text \<open>
  The exported row of one airline, before the last \<^verbatim>\<open>fillna(0)\<close>, from its counts and its
  cells in the seven columns that \<^verbatim>\<open>ratio\<close> computes (lines 137-168).
\<close>

definition features_row ::
  "counted \<Rightarrow> pyfloat \<Rightarrow> pyfloat \<Rightarrow> pyfloat \<Rightarrow> pyfloat \<Rightarrow> pyfloat \<Rightarrow> pyfloat \<Rightarrow> pyfloat
   \<Rightarrow> features" where
  "features_row c diversity' pct_a220' pct_787' pct_a350' pct_a330neo' pct_neo' pct_max' =
     (let a = cn_agg c
      in \<lparr> ft_airline = ag_airline a,
            ft_fleet_size = ag_fleet_size a,
            ft_n_models = cn_n_models c,
            ft_diversity = diversity',
            ft_new_gen_share = (case new_gen_share a of Some v \<Rightarrow> v | None \<Rightarrow> Fin 0),
            ft_indice_modernite_v0 =
              (case new_gen_share a of Some v \<Rightarrow> v
               | None \<Rightarrow> (case ag_indice_modernite_v0 a of Some v \<Rightarrow> v | None \<Rightarrow> Fin 0)),
            ft_indice_public = indice_public a,
            ft_indice_penalise = indice_penalise a,
            ft_n_a220 = cn_n_a220 c,
            ft_n_787 = cn_n_787 c,
            ft_n_a350 = cn_n_a350 c,
            ft_n_a330neo = cn_n_a330neo c,
            ft_n_neo = cn_n_neo c,
            ft_n_max = cn_n_max c,
            ft_pct_a220 = pct_a220',
            ft_pct_787 = pct_787',
            ft_pct_a350 = pct_a350',
            ft_pct_a330neo = pct_a330neo',
            ft_pct_neo = pct_neo',
            ft_pct_max = pct_max',
            ft_pct_newgen_narrow = clip01 (fadd (fadd pct_neo' pct_max') pct_a220'),
            ft_pct_newgen_wide = clip01 (fadd (fadd pct_787' pct_a350') pct_a330neo') \<rparr>)"

text \<open>Line 171: \<^verbatim>\<open>drop_duplicates(subset=["airline"], keep="first")\<close>.\<close>

fun keep_first :: "('a \<Rightarrow> 'k) \<Rightarrow> 'k list \<Rightarrow> 'a list \<Rightarrow> 'a list" where
  "keep_first key seen [] = []"
| "keep_first key seen (x # xs) =
     (if key x \<in> set seen then keep_first key seen xs
      else x # keep_first key (key x # seen) xs)"

text \<open>Line 184: every missing number of the exported columns becomes 0.\<close>

definition fillna_features :: "features \<Rightarrow> features" where
  "fillna_features f =
     \<lparr> ft_airline = ft_airline f,
       ft_fleet_size = fillna (Fin 0) (ft_fleet_size f),
       ft_n_models = fillna (Fin 0) (ft_n_models f),
       ft_diversity = fillna (Fin 0) (ft_diversity f),
       ft_new_gen_share = fillna (Fin 0) (ft_new_gen_share f),
       ft_indice_modernite_v0 = fillna (Fin 0) (ft_indice_modernite_v0 f),
       ft_indice_public = fillna (Fin 0) (ft_indice_public f),
       ft_indice_penalise = fillna (Fin 0) (ft_indice_penalise f),
       ft_n_a220 = fillna (Fin 0) (ft_n_a220 f),
       ft_n_787 = fillna (Fin 0) (ft_n_787 f),
       ft_n_a350 = fillna (Fin 0) (ft_n_a350 f),
       ft_n_a330neo = fillna (Fin 0) (ft_n_a330neo f),
       ft_n_neo = fillna (Fin 0) (ft_n_neo f),
       ft_n_max = fillna (Fin 0) (ft_n_max f),
       ft_pct_a220 = fillna (Fin 0) (ft_pct_a220 f),
       ft_pct_787 = fillna (Fin 0) (ft_pct_787 f),
       ft_pct_a350 = fillna (Fin 0) (ft_pct_a350 f),
       ft_pct_a330neo = fillna (Fin 0) (ft_pct_a330neo f),
       ft_pct_neo = fillna (Fin 0) (ft_pct_neo f),
       ft_pct_max = fillna (Fin 0) (ft_pct_max f),
       ft_pct_newgen_narrow = fillna (Fin 0) (ft_pct_newgen_narrow f),
       ft_pct_newgen_wide = fillna (Fin 0) (ft_pct_newgen_wide f) \<rparr>"

text \<open>
  The run of the script on the workbook and the raw data. The seven calls of \<^verbatim>\<open>ratio\<close> all
  divide by the column of fleet sizes; each returns a column as long as the table, which is
  read row by row.
\<close>

definition build_features :: "agg_row list \<Rightarrow> raw_row list \<Rightarrow> error + features list" where
  "build_features agg raw =
     (let out = map (counted_row raw) agg;
          fleet_size = map (\<lambda>c. ag_fleet_size (cn_agg c)) out
      in and_then (ratio (map cn_n_models out) fleet_size) (\<lambda>diversity.
         and_then (ratio (map cn_n_a220 out) fleet_size) (\<lambda>pct_a220.
         and_then (ratio (map cn_n_787 out) fleet_size) (\<lambda>pct_787.
         and_then (ratio (map cn_n_a350 out) fleet_size) (\<lambda>pct_a350.
         and_then (ratio (map cn_n_a330neo out) fleet_size) (\<lambda>pct_a330neo.
         and_then (ratio (map cn_n_neo out) fleet_size) (\<lambda>pct_neo.
         and_then (ratio (map cn_n_max out) fleet_size) (\<lambda>pct_max.
         Inr (map fillna_features
                (keep_first ft_airline []
                   (map (\<lambda>i. features_row (out ! i) (diversity ! i) (pct_a220 ! i) (pct_787 ! i)
                                 (pct_a350 ! i) (pct_a330neo ! i) (pct_neo ! i) (pct_max ! i))
                        [0 ..< length out])))))))))))"

text \<open>
  The aggregated workbook is the table that AIR-1 writes (same columns): its rows, read back
  as rows of the workbook.
\<close>

definition agg_row_of :: "air1_row \<Rightarrow> agg_row" where
  "agg_row_of x =
     \<lparr> ag_airline = Some (a1_airline x),
       ag_fleet_size = Fin (rat_of_nat (a1_fleet_size x)),
       ag_new_gen_share = Some (Fin (a1_new_gen_share x)),
       ag_indice_modernite_v0 = Some (Fin (a1_indice_modernite_v0 x)),
       ag_indice_public = Some (a1_indice_public x),
       ag_indice_penalise = Some (Fin (a1_indice_penalise x)) \<rparr>"

section \<open>AIR-13: the country mapping file (air13_build_country_mapping.py)\<close>

text \<open>
  The two dictionaries of the script, entry by entry. A letter outside ASCII is written as the
  bytes of its UTF-8 encoding.
\<close>

definition MANUAL_ALPHA2 :: "(string \<times> string) list" where
  "MANUAL_ALPHA2 =
     [(''Afghanistan'', ''AF''), (''Afrique du Sud'', ''ZA''), (''Albanie'', ''AL''),
      ((''Alg'' @ [CHR 0xC3, CHR 0xA9] @ ''rie''), ''DZ''), (''Allemagne'', ''DE''),
      (''Angola'', ''AO''), (''Anguilla'', ''AI''), (''Antigua-et-Barbuda'', ''AG''),
      (''Arabie saoudite'', ''SA''), (''Argentine'', ''AR''),
      ((''Arm'' @ [CHR 0xC3, CHR 0xA9] @ ''nie''), ''AM''), (''Aruba'', ''AW''),
      (''Autriche'', ''AT''), ((''Azerba'' @ [CHR 0xC3, CHR 0xAF] @ ''djan''), ''AZ''),
      (''Bahamas'', ''BS''), ((''Bahre'' @ [CHR 0xC3, CHR 0xAF] @ ''n''), ''BH''),
      (''Bangladesh'', ''BD''), (''Belgique'', ''BE''), (''Belize'', ''BZ''),
      (''Bermudes'', ''BM''), (''Bhoutan'', ''BT''), (''Birmanie'', ''MM''),
      ((''Bi'' @ [CHR 0xC3, CHR 0xA9] @ ''lorussie''), ''BY''), (''Bolivie'', ''BO''),
      ((''Bosnie-Herz'' @ [CHR 0xC3, CHR 0xA9] @ ''govine''), ''BA''), (''Botswana'', ''BW''),
      (''Brunei'', ''BN''), ((''Br'' @ [CHR 0xC3, CHR 0xA9] @ ''sil''), ''BR''),
      (''Bulgarie'', ''BG''), (''Burkina Faso'', ''BF''),
      ((''B'' @ [CHR 0xC3, CHR 0xA9] @ ''nin''), ''BJ''), (''Cambodge'', ''KH''),
      (''Cameroun'', ''CM''), (''Canada'', ''CA''), (''Cap-Vert'', ''CV''), (''Chili'', ''CL''),
      (''Chypre'', ''CY''), (''Colombie'', ''CO''),
      ((''Cor'' @ [CHR 0xC3, CHR 0xA9] @ ''e du Nord''), ''KP''),
      ((''Cor'' @ [CHR 0xC3, CHR 0xA9] @ ''e du Sud''), ''KR''), (''Costa Rica'', ''CR''),
      (''Croatie'', ''HR''),
      ((''C'' @ [CHR 0xC3, CHR 0xB4] @ ''te d'' @ [CHR 0x27] @ ''Ivoire''), ''CI''),
      (''Espagne'', ''ES''), (''Estonie'', ''EE''), (''Eswatini'', ''SZ''), (''Fidji'', ''FJ''),
      (''Finlande'', ''FI''), (''France'', ''FR''), (''Gabon'', ''GA''), (''Gambie'', ''GM''),
      (''Ghana'', ''GH''), ((''Gr'' @ [CHR 0xC3, CHR 0xA8] @ ''ce''), ''GR''),
      (''Guatemala'', ''GT''), (''Guernesey'', ''GG''),
      ((''Guin'' @ [CHR 0xC3, CHR 0xA9] @ ''e '' @ [CHR 0xC3, CHR 0xA9] @ ''quatoriale''), ''GQ''),
      (''Guyana'', ''GY''), ((''G'' @ [CHR 0xC3, CHR 0xA9] @ ''orgie''), ''GE''),
      (''Honduras'', ''HN''), (''Hong Kong'', ''HK''), (''Hongrie'', ''HU''),
      (''Inde'', ''IN''), (''Irak'', ''IQ''), (''Iran'', ''IR''), (''Irlande'', ''IE''),
      (''Islande'', ''IS''), (''Italie'', ''IT''), (''Japon'', ''JP''), (''Jordanie'', ''JO''),
      (''Kazakhstan'', ''KZ''), (''Kenya'', ''KE''), (''Kirghizistan'', ''KG''),
      (''Kiribati'', ''KI''), ((''Kowe'' @ [CHR 0xC3, CHR 0xAF] @ ''t''), ''KW''),
      (''Laos'', ''LA''), (''Lettonie'', ''LV''), (''Liban'', ''LB''), (''Libye'', ''LY''),
      (''Lituanie'', ''LT''), (''Luxembourg'', ''LU''), (''Macao'', ''MO''),
      (''Madagascar'', ''MG''), (''Malaisie'', ''MY''), (''Malawi'', ''MW''),
      (''Maldives'', ''MV''), (''Mali'', ''ML''), (''Malte'', ''MT''), (''Maurice'', ''MU''),
      (''Mauritanie'', ''MR''), (''Mexique'', ''MX''), (''Moldavie'', ''MD''),
      (''Monaco'', ''MC''),
      ((''Mont'' @ [CHR 0xC3, CHR 0xA9] @ ''n'' @ [CHR 0xC3, CHR 0xA9] @ ''gro''), ''ME''),
      (''Mozambique'', ''MZ''), (''Namibie'', ''NA''), (''Nicaragua'', ''NI''),
      (''Nigeria'', ''NG''), ((''Nouvelle-Z'' @ [CHR 0xC3, CHR 0xA9] @ ''lande''), ''NZ''),
      ((''N'' @ [CHR 0xC3, CHR 0xA9] @ ''pal''), ''NP''), (''Oman'', ''OM''),
      (''Ouganda'', ''UG''), ((''Ouzb'' @ [CHR 0xC3, CHR 0xA9] @ ''kistan''), ''UZ''),
      (''Pakistan'', ''PK''), (''Panama'', ''PA''),
      ((''Papouasie-Nouvelle-Guin'' @ [CHR 0xC3, CHR 0xA9] @ ''e''), ''PG''),
      (''Paraguay'', ''PY''), (''Pays-Bas'', ''NL''), (''Pologne'', ''PL''),
      ((''Polyn'' @ [CHR 0xC3, CHR 0xA9] @ ''sie fran'' @ [CHR 0xC3, CHR 0xA7] @ ''aise''), ''PF''),
      (''Porto Rico'', ''PR''), (''Portugal'', ''PT''),
      ((''P'' @ [CHR 0xC3, CHR 0xA9] @ ''rou''), ''PE''), (''Qatar'', ''QA''),
      (''Roumanie'', ''RO''), (''Russie'', ''RU''), (''Rwanda'', ''RW''),
      ((''R'' @ [CHR 0xC3, CHR 0xA9] @ ''publique centrafricaine''), ''CF''),
      ((''R'' @ [CHR 0xC3, CHR 0xA9] @ ''publique dominicaine''), ''DO''),
      ((''R'' @ [CHR 0xC3, CHR 0xA9] @ ''publique du Congo''), ''CG''),
      ((''R'' @ [CHR 0xC3, CHR 0xA9] @ ''publique d'' @ [CHR 0xC3, CHR 0xA9] @ ''mocratique du Congo''), ''CD''),
      ((''R'' @ [CHR 0xC3, CHR 0xA9] @ ''publique tch'' @ [CHR 0xC3, CHR 0xA8] @ ''que''), ''CZ''),
      (''Saint-Marin'', ''SM''), (''Saint-Vincent-et-les-Grenadines'', ''VC''),
      (''Samoa'', ''WS''), (''Serbie'', ''RS''), (''Seychelles'', ''SC''),
      (''Singapour'', ''SG''), (''Slovaquie'', ''SK''),
      ((''Slov'' @ [CHR 0xC3, CHR 0xA9] @ ''nie''), ''SI''), (''Somalie'', ''SO''),
      (''Soudan'', ''SD''), (''Sri Lanka'', ''LK''), (''Suisse'', ''CH''),
      (''Suriname'', ''SR''), ((''Su'' @ [CHR 0xC3, CHR 0xA8] @ ''de''), ''SE''),
      (''Svalbard et ile Jan Mayen'', ''SJ''), (''Syrie'', ''SY''),
      ((''S'' @ [CHR 0xC3, CHR 0xA9] @ ''n'' @ [CHR 0xC3, CHR 0xA9] @ ''gal''), ''SN''),
      (''Tadjikistan'', ''TJ''), (''Tanzanie'', ''TZ''),
      ((''Ta'' @ [CHR 0xC3, CHR 0xAF] @ ''wan''), ''TW''),
      ((''Territoire britannique de l'' @ [CHR 0x27] @ ''oc'' @ [CHR 0xC3, CHR 0xA9] @ ''an Indien''), ''IO''),
      ((''Tha'' @ [CHR 0xC3, CHR 0xAF] @ ''lande''), ''TH''), (''Timor oriental'', ''TL''),
      (''Togo'', ''TG''), (''Tonga'', ''TO''),
      ((''Trinit'' @ [CHR 0xC3, CHR 0xA9] @ ''-et-Tobago''), ''TT''), (''Tunisie'', ''TN''),
      ((''Turkm'' @ [CHR 0xC3, CHR 0xA9] @ ''nistan''), ''TM''), (''Turquie'', ''TR''),
      (''Ukraine'', ''UA''), (''Uruguay'', ''UY''), (''Vanuatu'', ''VU''),
      (''Venezuela'', ''VE''), (''Vietnam'', ''VN''),
      ((''Y'' @ [CHR 0xC3, CHR 0xA9] @ ''men''), ''YE''), (''Zambie'', ''ZM''),
      (''Zimbabwe'', ''ZW''), (([CHR 0xC3, CHR 0x89] @ ''gypte''), ''EG''),
      (([CHR 0xC3, CHR 0x89] @ ''mirats arabes unis''), ''AE''),
      (([CHR 0xC3, CHR 0x89] @ ''quateur''), ''EC''),
      (([CHR 0xC3, CHR 0x89] @ ''thiopie''), ''ET''),
      (([CHR 0xC3, CHR 0x8E] @ ''le de Man''), ''IM''),
      (([CHR 0xC3, CHR 0x8E] @ ''les Ca'' @ [CHR 0xC3, CHR 0xAF] @ ''mans''), ''KY''),
      (([CHR 0xC3, CHR 0x8E] @ ''les Cocos''), ''CC''),
      (([CHR 0xC3, CHR 0x8E] @ ''les F'' @ [CHR 0xC3, CHR 0xA9] @ ''ro'' @ [CHR 0xC3, CHR 0xA9]), ''FO''),
      (([CHR 0xC3, CHR 0x8E] @ ''les Salomon''), ''SB''),
      (([CHR 0xC3, CHR 0x8E] @ ''les Turques-et-Ca'' @ [CHR 0xC3, CHR 0xAF] @ ''ques''), ''TC'')]"

definition MANUAL_REGION :: "(string \<times> string) list" where
  "MANUAL_REGION =
     [(''Afghanistan'', ''Asia''), (''Afrique du Sud'', ''Africa''), (''Albanie'', ''Europe''),
      ((''Alg'' @ [CHR 0xC3, CHR 0xA9] @ ''rie''), ''Africa''), (''Allemagne'', ''Europe''),
      (''Angola'', ''Africa''), (''Anguilla'', ''Caribbean''),
      (''Antigua-et-Barbuda'', ''Caribbean''), (''Arabie saoudite'', ''Middle East''),
      (''Argentine'', ''South America''),
      ((''Arm'' @ [CHR 0xC3, CHR 0xA9] @ ''nie''), ''Asia''), (''Aruba'', ''Caribbean''),
      (''Autriche'', ''Europe''), ((''Azerba'' @ [CHR 0xC3, CHR 0xAF] @ ''djan''), ''Asia''),
      (''Bahamas'', ''Caribbean''),
      ((''Bahre'' @ [CHR 0xC3, CHR 0xAF] @ ''n''), ''Middle East''), (''Bangladesh'', ''Asia''),
      (''Belgique'', ''Europe''), (''Belize'', ''North America''),
      (''Bermudes'', ''North America''), (''Bhoutan'', ''Asia''), (''Birmanie'', ''Asia''),
      ((''Bi'' @ [CHR 0xC3, CHR 0xA9] @ ''lorussie''), ''Europe''),
      (''Bolivie'', ''South America''),
      ((''Bosnie-Herz'' @ [CHR 0xC3, CHR 0xA9] @ ''govine''), ''Europe''),
      (''Botswana'', ''Africa''), (''Brunei'', ''Asia''),
      ((''Br'' @ [CHR 0xC3, CHR 0xA9] @ ''sil''), ''South America''),
      (''Bulgarie'', ''Europe''), (''Burkina Faso'', ''Africa''),
      ((''B'' @ [CHR 0xC3, CHR 0xA9] @ ''nin''), ''Africa''), (''Cambodge'', ''Asia''),
      (''Cameroun'', ''Africa''), (''Canada'', ''North America''), (''Cap-Vert'', ''Africa''),
      (''Chili'', ''South America''), (''Chypre'', ''Europe''),
      (''Colombie'', ''South America''),
      ((''Cor'' @ [CHR 0xC3, CHR 0xA9] @ ''e du Nord''), ''Asia''),
      ((''Cor'' @ [CHR 0xC3, CHR 0xA9] @ ''e du Sud''), ''Asia''),
      (''Costa Rica'', ''North America''), (''Croatie'', ''Europe''),
      ((''C'' @ [CHR 0xC3, CHR 0xB4] @ ''te d'' @ [CHR 0x27] @ ''Ivoire''), ''Africa''),
      (''Espagne'', ''Europe''), (''Estonie'', ''Europe''), (''Eswatini'', ''Africa''),
      (''Fidji'', ''Oceania''), (''Finlande'', ''Europe''), (''France'', ''Europe''),
      (''Gabon'', ''Africa''), (''Gambie'', ''Africa''), (''Ghana'', ''Africa''),
      ((''Gr'' @ [CHR 0xC3, CHR 0xA8] @ ''ce''), ''Europe''),
      (''Guatemala'', ''North America''), (''Guernesey'', ''Europe''),
      ((''Guin'' @ [CHR 0xC3, CHR 0xA9] @ ''e '' @ [CHR 0xC3, CHR 0xA9] @ ''quatoriale''), ''Africa''),
      (''Guyana'', ''South America''), ((''G'' @ [CHR 0xC3, CHR 0xA9] @ ''orgie''), ''Asia''),
      (''Honduras'', ''North America''), (''Hong Kong'', ''Asia''), (''Hongrie'', ''Europe''),
      (''Inde'', ''Asia''), (''Irak'', ''Middle East''), (''Iran'', ''Middle East''),
      (''Irlande'', ''Europe''), (''Islande'', ''Europe''), (''Italie'', ''Europe''),
      (''Japon'', ''Asia''), (''Jordanie'', ''Middle East''), (''Kazakhstan'', ''Asia''),
      (''Kenya'', ''Africa''), (''Kirghizistan'', ''Asia''), (''Kiribati'', ''Oceania''),
      ((''Kowe'' @ [CHR 0xC3, CHR 0xAF] @ ''t''), ''Middle East''), (''Laos'', ''Asia''),
      (''Lettonie'', ''Europe''), (''Liban'', ''Middle East''), (''Libye'', ''Africa''),
      (''Lituanie'', ''Europe''), (''Luxembourg'', ''Europe''), (''Macao'', ''Asia''),
      (''Madagascar'', ''Africa''), (''Malaisie'', ''Asia''), (''Malawi'', ''Africa''),
      (''Maldives'', ''Asia''), (''Mali'', ''Africa''), (''Malte'', ''Europe''),
      (''Maurice'', ''Africa''), (''Mauritanie'', ''Africa''), (''Mexique'', ''North America''),
      (''Moldavie'', ''Europe''), (''Monaco'', ''Europe''),
      ((''Mont'' @ [CHR 0xC3, CHR 0xA9] @ ''n'' @ [CHR 0xC3, CHR 0xA9] @ ''gro''), ''Europe''),
      (''Mozambique'', ''Africa''), (''Namibie'', ''Africa''),
      (''Nicaragua'', ''North America''), (''Nigeria'', ''Africa''),
      ((''Nouvelle-Z'' @ [CHR 0xC3, CHR 0xA9] @ ''lande''), ''Oceania''),
      ((''N'' @ [CHR 0xC3, CHR 0xA9] @ ''pal''), ''Asia''), (''Oman'', ''Middle East''),
      (''Ouganda'', ''Africa''), ((''Ouzb'' @ [CHR 0xC3, CHR 0xA9] @ ''kistan''), ''Asia''),
      (''Pakistan'', ''Asia''), (''Panama'', ''North America''),
      ((''Papouasie-Nouvelle-Guin'' @ [CHR 0xC3, CHR 0xA9] @ ''e''), ''Oceania''),
      (''Paraguay'', ''South America''), (''Pays-Bas'', ''Europe''), (''Pologne'', ''Europe''),
      ((''Polyn'' @ [CHR 0xC3, CHR 0xA9] @ ''sie fran'' @ [CHR 0xC3, CHR 0xA7] @ ''aise''), ''Oceania''),
      (''Porto Rico'', ''Caribbean''), (''Portugal'', ''Europe''),
      ((''P'' @ [CHR 0xC3, CHR 0xA9] @ ''rou''), ''South America''),
      (''Qatar'', ''Middle East''), (''Roumanie'', ''Europe''), (''Russie'', ''Europe''),
      (''Rwanda'', ''Africa''),
      ((''R'' @ [CHR 0xC3, CHR 0xA9] @ ''publique centrafricaine''), ''Africa''),
      ((''R'' @ [CHR 0xC3, CHR 0xA9] @ ''publique dominicaine''), ''Caribbean''),
      ((''R'' @ [CHR 0xC3, CHR 0xA9] @ ''publique du Congo''), ''Africa''),
      ((''R'' @ [CHR 0xC3, CHR 0xA9] @ ''publique d'' @ [CHR 0xC3, CHR 0xA9] @ ''mocratique du Congo''), ''Africa''),
      ((''R'' @ [CHR 0xC3, CHR 0xA9] @ ''publique tch'' @ [CHR 0xC3, CHR 0xA8] @ ''que''), ''Europe''),
      (''Saint-Marin'', ''Europe''), (''Saint-Vincent-et-les-Grenadines'', ''Caribbean''),
      (''Samoa'', ''Oceania''), (''Serbie'', ''Europe''), (''Seychelles'', ''Africa''),
      (''Singapour'', ''Asia''), (''Slovaquie'', ''Europe''),
      ((''Slov'' @ [CHR 0xC3, CHR 0xA9] @ ''nie''), ''Europe''), (''Somalie'', ''Africa''),
      (''Soudan'', ''Africa''), (''Sri Lanka'', ''Asia''), (''Suisse'', ''Europe''),
      (''Suriname'', ''South America''), ((''Su'' @ [CHR 0xC3, CHR 0xA8] @ ''de''), ''Europe''),
      (''Svalbard et ile Jan Mayen'', ''Europe''), (''Syrie'', ''Middle East''),
      ((''S'' @ [CHR 0xC3, CHR 0xA9] @ ''n'' @ [CHR 0xC3, CHR 0xA9] @ ''gal''), ''Africa''),
      (''Tadjikistan'', ''Asia''), (''Tanzanie'', ''Africa''),
      ((''Ta'' @ [CHR 0xC3, CHR 0xAF] @ ''wan''), ''Asia''),
      ((''Territoire britannique de l'' @ [CHR 0x27] @ ''oc'' @ [CHR 0xC3, CHR 0xA9] @ ''an Indien''), ''Asia''),
      ((''Tha'' @ [CHR 0xC3, CHR 0xAF] @ ''lande''), ''Asia''), (''Timor oriental'', ''Asia''),
      (''Togo'', ''Africa''), (''Tonga'', ''Oceania''),
      ((''Trinit'' @ [CHR 0xC3, CHR 0xA9] @ ''-et-Tobago''), ''Caribbean''),
      (''Tunisie'', ''Africa''), ((''Turkm'' @ [CHR 0xC3, CHR 0xA9] @ ''nistan''), ''Asia''),
      (''Turquie'', ''Middle East''), (''Ukraine'', ''Europe''),
      (''Uruguay'', ''South America''), (''Vanuatu'', ''Oceania''),
      (''Venezuela'', ''South America''), (''Vietnam'', ''Asia''),
      ((''Y'' @ [CHR 0xC3, CHR 0xA9] @ ''men''), ''Middle East''), (''Zambie'', ''Africa''),
      (''Zimbabwe'', ''Africa''), (([CHR 0xC3, CHR 0x89] @ ''gypte''), ''Africa''),
      (([CHR 0xC3, CHR 0x89] @ ''mirats arabes unis''), ''Middle East''),
      (([CHR 0xC3, CHR 0x89] @ ''quateur''), ''South America''),
      (([CHR 0xC3, CHR 0x89] @ ''thiopie''), ''Africa''),
      (([CHR 0xC3, CHR 0x8E] @ ''le de Man''), ''Europe''),
      (([CHR 0xC3, CHR 0x8E] @ ''les Ca'' @ [CHR 0xC3, CHR 0xAF] @ ''mans''), ''Caribbean''),
      (([CHR 0xC3, CHR 0x8E] @ ''les Cocos''), ''Asia''),
      (([CHR 0xC3, CHR 0x8E] @ ''les F'' @ [CHR 0xC3, CHR 0xA9] @ ''ro'' @ [CHR 0xC3, CHR 0xA9]), ''Europe''),
      (([CHR 0xC3, CHR 0x8E] @ ''les Salomon''), ''Oceania''),
      (([CHR 0xC3, CHR 0x8E] @ ''les Turques-et-Ca'' @ [CHR 0xC3, CHR 0xAF] @ ''ques''), ''Caribbean'')]"

record map_row =
  mr_country :: string
  mr_country_code :: string
  mr_region :: string

text \<open>
  \<^verbatim>\<open>guess_iso_code\<close>. The dictionary comes first. The two later steps ask \<^verbatim>\<open>pycountry\<close>,
  directly and after a translation by \<^verbatim>\<open>googletrans\<close>; both libraries are optional and
  outside the repository, so what they answer for a name is the parameter \<open>ext\<close> (the empty
  string when they find nothing). \<open>no_libraries\<close> is the run without them.
\<close>

definition guess_iso_code :: "(string \<Rightarrow> string) \<Rightarrow> string \<Rightarrow> string" where
  "guess_iso_code ext country =
     (let c = strip country
      in if c = [] then []
         else (case map_of MANUAL_ALPHA2 c of Some code \<Rightarrow> code | None \<Rightarrow> ext c))"

definition no_libraries :: "string \<Rightarrow> string" where
  "no_libraries c = []"

text \<open>Lines 475-483: the countries of the raw data, trimmed, sorted, each once.\<close>

definition countries :: "raw_row list \<Rightarrow> string list" where
  "countries raw =
     remdups_adj (sort (map (\<lambda>r. strip (the (rw_country r)))
                            (filter (\<lambda>r. rw_country r \<noteq> None) raw)))"

text \<open>
  Lines 486-491: the existing file, if there is one, indexed by the trimmed country. The
  lookup returns the cells of the row with that country; the file is expected to hold one
  row per country.
\<close>

definition old_index :: "map_row list \<Rightarrow> string \<Rightarrow> map_row option" where
  "old_index rows c = find (\<lambda>old. strip (mr_country old) = c) rows"

text \<open>Lines 494-511: one row per observed country, with the values already entered.\<close>

definition carry_over :: "map_row list option \<Rightarrow> string \<Rightarrow> map_row" where
  "carry_over mapping_old c =
     (let country = strip c
      in (case mapping_old of
            None \<Rightarrow> \<lparr> mr_country = country, mr_country_code = [], mr_region = [] \<rparr>
          | Some rows \<Rightarrow>
              (case old_index rows country of
                 None \<Rightarrow> \<lparr> mr_country = country, mr_country_code = [], mr_region = [] \<rparr>
               | Some old \<Rightarrow> \<lparr> mr_country = country, mr_country_code = mr_country_code old,
                               mr_region = mr_region old \<rparr>)))"

text \<open>Lines 518-533: a blank region or code is filled when a value is known.\<close>

definition auto_fill :: "(string \<Rightarrow> string) \<Rightarrow> map_row \<Rightarrow> map_row" where
  "auto_fill ext row =
     (let country = mr_country row;
          row1 = (if strip (mr_region row) = [] \<and> map_of MANUAL_REGION country \<noteq> None
                  then row\<lparr>mr_region := the (map_of MANUAL_REGION country)\<rparr> else row);
          row2 = (if strip (mr_country_code row1) = []
                  then (let code = guess_iso_code ext country
                        in if code \<noteq> [] then row1\<lparr>mr_country_code := code\<rparr> else row1)
                  else row1)
      in row2)"

definition mapping_new :: "(string \<Rightarrow> string) \<Rightarrow> raw_row list \<Rightarrow> map_row list option \<Rightarrow> map_row list" where
  "mapping_new ext raw mapping_old =
     map (\<lambda>c. auto_fill ext (carry_over mapping_old c)) (countries raw)"

section \<open>AIR-14: the region summary (air14_region_summary.py)\<close>

definition STOP_WORDS_FR :: "string list" where
  "STOP_WORDS_FR =
     [''ETAT'', ''ETATS'', ''UNIS'', ''ETATSUNIS'', ''ARABE'', ''ARABES'', ''EMIRAT'',
      ''EMIRATS'', ''REPUBLIQUE'', ''ROYAUME'', ''UNION'', ''FEDERALE'', ''FEDERAL'',
      ''DU'', ''DE'', ''DES'', ''LA'', ''LE'', ''LES'', ''D'', ''L'', ''SAINT'', ''SAINTE'']"

text \<open>\<^verbatim>\<open>re.sub(r"\s+", " ", s)\<close>: every run of white space becomes one blank.\<close>

fun collapse_spaces :: "bool \<Rightarrow> string \<Rightarrow> string" where
  "collapse_spaces in_run [] = []"
| "collapse_spaces in_run (x # xs) =
     (if is_space x
      then (if in_run then collapse_spaces True xs else CHR '' '' # collapse_spaces True xs)
      else x # collapse_spaces False xs)"

text \<open>
  \<^verbatim>\<open>normalize_str\<close>: text of the cell, NFKD, combining marks removed, upper case, trimmed,
  everything but \<^verbatim>\<open>A-Z\<close> replaced by a blank, runs of white space collapsed.
\<close>

definition normalize_str :: "unicodedata \<Rightarrow> string option \<Rightarrow> string" where
  "normalize_str U v =
     (let s = py_str v;
          s = nfkd U s;
          s = drop_combining U s;
          s = strip (upper s);
          s = map (\<lambda>c. if CHR ''A'' \<le> c \<and> c \<le> CHR ''Z'' then c else CHR '' '') s
      in collapse_spaces False s)"

text \<open>\<^verbatim>\<open>str.split()\<close>: the words between runs of white space.\<close>

fun split_acc :: "string \<Rightarrow> string \<Rightarrow> string list" where
  "split_acc cur [] = (if cur = [] then [] else [rev cur])"
| "split_acc cur (x # xs) =
     (if is_space x
      then (if cur = [] then split_acc [] xs else rev cur # split_acc [] xs)
      else split_acc (x # cur) xs)"

definition py_split :: "string \<Rightarrow> string list" where
  "py_split s = split_acc [] s"

text \<open>\<^verbatim>\<open>tok in name\<close>: the token occurs in the name as a substring.\<close>

fun starts_with :: "string \<Rightarrow> string \<Rightarrow> bool" where
  "starts_with [] s = True"
| "starts_with (x # xs) [] = False"
| "starts_with (x # xs) (y # ys) = (x = y \<and> starts_with xs ys)"

fun contains :: "string \<Rightarrow> string \<Rightarrow> bool" where
  "contains [] tok = (tok = [])"
| "contains (x # xs) tok = (starts_with tok (x # xs) \<or> contains xs tok)"

definition extract_country_tokens :: "string \<Rightarrow> string list" where
  "extract_country_tokens country_clean =
     (let tokens = py_split country_clean;
          good = filter (\<lambda>t. \<not> length t < 4 \<and> t \<notin> set STOP_WORDS_FR) tokens
      in if good \<noteq> [] then good else tokens)"

text \<open>
  One row of \<^verbatim>\<open>source/country_region_mapping.csv\<close>, as far as this script reads it: the
  country and the region, either of which may be an empty cell.
\<close>

record region_row =
  rg_country :: "string option"
  rg_region :: "string option"

definition build_country_token_table ::
  "unicodedata \<Rightarrow> region_row list \<Rightarrow> (string option \<times> string) list" where
  "build_country_token_table U mapping =
     drop_duplicates
       (concat (map (\<lambda>row. map (\<lambda>tok. (rg_country row, tok))
                                (extract_country_tokens (normalize_str U (rg_country row))))
                    mapping))"

text \<open>
  \<^verbatim>\<open>guess_country_from_name\<close>: the country of the first row of the token table whose token
  occurs in the normalised name. The country of that row may itself be an empty cell.
\<close>

definition guess_country_from_name ::
  "unicodedata \<Rightarrow> string option \<Rightarrow> (string option \<times> string) list \<Rightarrow> string option" where
  "guess_country_from_name U airline_name token_table =
     (case airline_name of
        None \<Rightarrow> None
      | Some name \<Rightarrow>
          (let name_clean = normalize_str U (Some name)
           in if name_clean = [] then None
              else (case filter (\<lambda>(country, tok). tok \<noteq> [] \<and> contains name_clean tok)
                                token_table of
                      [] \<Rightarrow> None
                    | (country, tok) # _ \<Rightarrow> country)))"

definition MANUAL_COUNTRY_RAW :: "(string \<times> string) list" where
  "MANUAL_COUNTRY_RAW =
     [(''SALAMAIR'', ''Oman''), (''CEBU PACIFIC'', ''Philippines''),
      (''ROYAL AIR MAROC'', ''Maroc''), (''PHILIPPINE AIRLINES'', ''Philippines''),
      (''AERO MONGOLIA'', ''Mongolie''), (''AIRSWIFT'', ''Philippines''),
      (''AUSTRIA - AIR FORCE'', ''Autriche''),
      (''BRAZIL - ARMY'', (''Br'' @ [CHR 0xC3, CHR 0xA9] @ ''sil'')),
      (''CZECHIA - AIR FORCE'', (''R'' @ [CHR 0xC3, CHR 0xA9] @ ''publique tch'' @ [CHR 0xC3, CHR 0xA8] @ ''que'')),
      (''EADS CASA'', ''Espagne''), (''MAVI GAK AIRLINES'', ''Turquie''),
      (''MEXICO - NAVY'', ''Mexique''), (''RUSSIA - NATIONAL GUARD'', ''Russie''),
      (''SINGAPORE - AIR FORCE'', ''Singapour''), (''SPAIN - GUARDIA CIVIL'', ''Espagne''),
      (''TRANSPORTES AAREOS PEGASO'', ''Mexique''), (''AERO DILI'', ''Timor oriental''),
      (''BERMUDAIR'', ''Bermudes''), (''BH AIR'', ''Bulgarie''),
      (''ESTONIA - AIR FORCE'', ''Estonie''),
      (''FLYERBIL AIRLINE'', (''Su'' @ [CHR 0xC3, CHR 0xA8] @ ''de'')),
      (''GREECE - ARMY'', (''Gr'' @ [CHR 0xC3, CHR 0xA8] @ ''ce'')),
      (''HYDRO-QUABEC'', ''Canada''), (''LATVIA - AIR FORCE'', ''Lettonie''),
      (''LIFT'', ''Afrique du Sud''), (''MOAAMBIQUE EXPRESSO'', ''Mozambique''),
      (''MONGOLIAN AIRWAYS'', ''Mongolie''),
      (''PERU - NAVY'', (''P'' @ [CHR 0xC3, CHR 0xA9] @ ''rou'')),
      (''POLAND - NAVY'', ''Pologne''), (''PRIVATMAIR'', ''Suisse''),
      (''ROYAL STAR AVIATION'', ([CHR 0xC3, CHR 0x89] @ ''tats-Unis'')),
      (''ROYALAIR PHILIPPINES'', ''Philippines''), (''SEAIR INTERNATIONAL'', ''Philippines''),
      (''SERVICIOS AAREOS ILSA'', ''Mexique''),
      (''SKYHIGH DOMINICANA'', (''R'' @ [CHR 0xC3, CHR 0xA9] @ ''publique dominicaine'')),
      (''SKYJET AIRLINES'', ''Philippines''), (''SUNLIGHT AIR'', ''Philippines''),
      (''SWITZERLAND - AIR FORCE'', ''Suisse''), (''TAR MEXICO'', ''Mexique''),
      (''ZORTE AIR'', ''Mongolie'')]"

text \<open>
  The dictionary \<^verbatim>\<open>MANUAL_COUNTRY\<close> has the normalised names as keys; of two entries with the
  same key a dictionary keeps the later one.
\<close>

definition MANUAL_COUNTRY :: "unicodedata \<Rightarrow> (string \<times> string) list" where
  "MANUAL_COUNTRY U = rev (map (\<lambda>(k, v). (normalize_str U (Some k), v)) MANUAL_COUNTRY_RAW)"

definition get_manual_country :: "unicodedata \<Rightarrow> string option \<Rightarrow> string option" where
  "get_manual_country U airline_name =
     (case airline_name of
        None \<Rightarrow> None
      | Some name \<Rightarrow> map_of (MANUAL_COUNTRY U) (normalize_str U (Some name)))"

text \<open>Lines 151-162: four rows are appended to the mapping that was read.\<close>

definition EXTRA_REGION :: "(string \<times> string) list" where
  "EXTRA_REGION =
     [(''Philippines'', ''Asia''), (''Maroc'', ''Africa''), (''Mongolie'', ''Asia''),
      ([CHR 0xC3, CHR 0x89] @ ''tats-Unis'', ''North America'')]"

definition extra_rows :: "region_row list" where
  "extra_rows = map (\<lambda>(c, r). \<lparr> rg_country = Some c, rg_region = Some r \<rparr>) EXTRA_REGION"

definition full_mapping :: "region_row list \<Rightarrow> region_row list" where
  "full_mapping mapping = mapping @ extra_rows"

text \<open>One row of \<^verbatim>\<open>release/airline_scores.csv\<close>, as far as this script reads it.\<close>

record scored =
  sc_airline :: "string option"
  sc_modernity_index :: pyfloat

text \<open>
  Lines 188-195: the pairs of airline and country of the raw data are counted (rows with an
  empty cell in either column are left out, groups come out sorted), and each airline keeps
  the first of its countries with the highest count.
\<close>

definition raw_pairs :: "raw_row list \<Rightarrow> (string \<times> string) list" where
  "raw_pairs raw =
     map (\<lambda>r. (the (rw_airline_name r), the (rw_country r)))
         (filter (\<lambda>r. rw_airline_name r \<noteq> None \<and> rw_country r \<noteq> None) raw)"

definition country_counts :: "raw_row list \<Rightarrow> string \<Rightarrow> (string \<times> nat) list" where
  "country_counts raw name =
     map (\<lambda>c. (c, length (filter (\<lambda>p. p = (name, c)) (raw_pairs raw))))
         (sort (remdups (map snd (filter (\<lambda>p. fst p = name) (raw_pairs raw)))))"

fun idxmax :: "'a \<times> nat \<Rightarrow> ('a \<times> nat) list \<Rightarrow> 'a" where
  "idxmax (b, n) [] = b"
| "idxmax (b, n) ((c, m) # xs) = (if n < m then idxmax (c, m) xs else idxmax (b, n) xs)"

definition airline_country :: "raw_row list \<Rightarrow> (string \<times> string) list" where
  "airline_country raw =
     concat (map (\<lambda>name. (case country_counts raw name of
                             [] \<Rightarrow> []
                           | g # gs \<Rightarrow> [(name, idxmax g gs)]))
                 (sort (remdups (map fst (raw_pairs raw)))))"

definition airline_key :: "string \<Rightarrow> string" where
  "airline_key name = strip (upper name)"

record resolved_row =
  rs_airline :: "string option"
  rs_modernity_index :: pyfloat
  rs_country :: "string option"

text \<open>
  Lines 197-208: the left join of the scores with that table on the upper-cased, trimmed
  name. A score row without a partner keeps an empty country; one with several partners is
  repeated.
\<close>

definition with_country :: "scored \<Rightarrow> string option \<Rightarrow> resolved_row" where
  "with_country s c =
     \<lparr> rs_airline = sc_airline s, rs_modernity_index = sc_modernity_index s, rs_country = c \<rparr>"

definition direct_join :: "raw_row list \<Rightarrow> scored list \<Rightarrow> resolved_row list" where
  "direct_join raw scores =
     concat (map (\<lambda>s.
       (let found = map snd (filter (\<lambda>(name, c). airline_key name = airline_key (py_str (sc_airline s)))
                                    (airline_country raw))
        in if found = [] then [with_country s None]
           else map (\<lambda>c. with_country s (Some c)) found)) scores)"

text \<open>Lines 211-216: the manual table, for the rows whose country is still empty.\<close>

definition manual_override :: "unicodedata \<Rightarrow> resolved_row list \<Rightarrow> resolved_row list" where
  "manual_override U merged =
     (if list_ex (\<lambda>r. rs_country r = None) merged
      then map (\<lambda>r. if rs_country r = None
                     then r\<lparr>rs_country := get_manual_country U (rs_airline r)\<rparr> else r) merged
      else merged)"

text \<open>Lines 219-224: the heuristic on the name, for the rows whose country is still empty.\<close>

definition name_heuristic ::
  "unicodedata \<Rightarrow> (string option \<times> string) list \<Rightarrow> resolved_row list \<Rightarrow> resolved_row list" where
  "name_heuristic U country_tokens merged =
     (if list_ex (\<lambda>r. rs_country r = None) merged
      then map (\<lambda>r. if rs_country r = None
                     then r\<lparr>rs_country := guess_country_from_name U (rs_airline r) country_tokens\<rparr>
                     else r) merged
      else merged)"

definition resolve_countries ::
  "unicodedata \<Rightarrow> raw_row list \<Rightarrow> region_row list \<Rightarrow> scored list \<Rightarrow> resolved_row list" where
  "resolve_countries U raw mapping scores =
     name_heuristic U (build_country_token_table U (full_mapping mapping))
       (manual_override U (direct_join raw scores))"

record merged_row =
  mg_airline :: "string option"
  mg_modernity_index :: pyfloat
  mg_country :: "string option"
  mg_region :: "string option"

text \<open>
  Lines 227-235: the left join with the mapping on the normalised country. A row with an
  empty country has an empty key, and no row of the mapping has one, since
  \<^verbatim>\<open>normalize_str\<close> turns every cell into text.
\<close>

definition with_region :: "resolved_row \<Rightarrow> string option \<Rightarrow> merged_row" where
  "with_region r reg =
     \<lparr> mg_airline = rs_airline r, mg_modernity_index = rs_modernity_index r,
       mg_country = rs_country r, mg_region = reg \<rparr>"

definition region_join :: "unicodedata \<Rightarrow> region_row list \<Rightarrow> resolved_row list \<Rightarrow> merged_row list" where
  "region_join U mapping merged =
     concat (map (\<lambda>r.
       (let country_norm = (case rs_country r of None \<Rightarrow> None
                                                | Some c \<Rightarrow> Some (normalize_str U (Some c)));
            found = map rg_region
                        (filter (\<lambda>m. Some (normalize_str U (rg_country m)) = country_norm) mapping)
        in if found = [] then [with_region r None] else map (with_region r) found)) merged)"

definition merged_rows ::
  "unicodedata \<Rightarrow> raw_row list \<Rightarrow> region_row list \<Rightarrow> scored list \<Rightarrow> merged_row list" where
  "merged_rows U raw mapping scores =
     region_join U (full_mapping mapping) (resolve_countries U raw mapping scores)"

text \<open>Lines 238-240: the airlines without a region, written to their own file.\<close>

definition missing ::
  "unicodedata \<Rightarrow> raw_row list \<Rightarrow> region_row list \<Rightarrow> scored list
   \<Rightarrow> (string option \<times> string option) list" where
  "missing U raw mapping scores =
     drop_duplicates (map (\<lambda>m. (mg_airline m, mg_country m))
                          (filter (\<lambda>m. mg_region m = None) (merged_rows U raw mapping scores)))"

text \<open>Line 247: only rows with a region and an index go on to the aggregation.\<close>

definition aggregated_rows ::
  "unicodedata \<Rightarrow> raw_row list \<Rightarrow> region_row list \<Rightarrow> scored list \<Rightarrow> merged_row list" where
  "aggregated_rows U raw mapping scores =
     filter (\<lambda>m. mg_region m \<noteq> None \<and> \<not> isna (mg_modernity_index m))
            (merged_rows U raw mapping scores)"

record summary_row =
  sm_region :: string
  sm_n_airlines :: nat
  sm_mean_modernity_index :: pyfloat

text \<open>
  Lines 262-269: per region, the number of distinct airlines and the mean index. The
  formatted list of the best airlines and the final ordering by mean are not modelled.
\<close>

definition summary_basic :: "merged_row list \<Rightarrow> summary_row list" where
  "summary_basic rows =
     map (\<lambda>reg.
            (let g = filter (\<lambda>m. mg_region m = Some reg) rows
             in \<lparr> sm_region = reg,
                   sm_n_airlines = nunique (filter (\<lambda>a. a \<noteq> None) (map mg_airline g)),
                   sm_mean_modernity_index =
                     fdiv (foldl fadd (Fin 0) (map mg_modernity_index g))
                          (Fin (rat_of_nat (length g))) \<rparr>))
         (sort (remdups (map (\<lambda>m. the (mg_region m)) rows)))"

text \<open>The run: the side file and the summary, or the exit of line 250 when no row is left.\<close>

definition region_summary ::
  "unicodedata \<Rightarrow> raw_row list \<Rightarrow> region_row list \<Rightarrow> scored list
   \<Rightarrow> error + ((string option \<times> string option) list \<times> summary_row list)" where
  "region_summary U raw mapping scores =
     (let rows = aggregated_rows U raw mapping scores
      in if rows = [] then Inl SystemExit
         else Inr (missing U raw mapping scores, summary_basic rows))"

text \<open>
  The resolver in the words of the specification. First stage: the country that occurs most
  often with the airline in the raw data, the first in sorted order among equals; it is
  looked up for every airline of the raw data whose upper-cased, trimmed name is that of the
  score row. Second stage: the entry of the manual table whose normalised name is the
  normalised name of the airline (the later one, should two entries have the same). Third
  stage: the country of the first row of the token table whose token occurs in the normalised
  name. The stages are tried in order, and the first that answers decides.
\<close>

definition pair_count :: "raw_row list \<Rightarrow> string \<Rightarrow> string \<Rightarrow> nat" where
  "pair_count raw name c =
     length (filter (\<lambda>r. rw_airline_name r = Some name \<and> rw_country r = Some c) raw)"

definition most_frequent_country :: "raw_row list \<Rightarrow> string \<Rightarrow> string \<Rightarrow> bool" where
  "most_frequent_country raw name c =
     (0 < pair_count raw name c
      \<and> (\<forall>c'. pair_count raw name c' \<le> pair_count raw name c)
      \<and> (\<forall>c'. pair_count raw name c' = pair_count raw name c \<longrightarrow> c \<le> c'))"

definition direct_countries :: "raw_row list \<Rightarrow> scored \<Rightarrow> string set" where
  "direct_countries raw s =
     {c. \<exists>name. airline_key name = airline_key (py_str (sc_airline s))
                \<and> most_frequent_country raw name c}"

definition manual_entry :: "unicodedata \<Rightarrow> string \<Rightarrow> string option" where
  "manual_entry U name =
     (case filter (\<lambda>(k, v). normalize_str U (Some k) = normalize_str U (Some name))
                  MANUAL_COUNTRY_RAW of
        [] \<Rightarrow> None
      | e # es \<Rightarrow> Some (snd (last (e # es))))"

definition first_token_country ::
  "unicodedata \<Rightarrow> string \<Rightarrow> (string option \<times> string) list \<Rightarrow> string option" where
  "first_token_country U name country_tokens =
     (case find (\<lambda>(country, tok). tok \<noteq> [] \<and> contains (normalize_str U (Some name)) tok)
                country_tokens of
        None \<Rightarrow> None
      | Some (country, tok) \<Rightarrow> country)"

fun first_success :: "('a \<Rightarrow> 'b option) list \<Rightarrow> 'a \<Rightarrow> 'b option" where
  "first_success [] x = None"
| "first_success (stage # stages) x =
     (case stage x of Some y \<Rightarrow> Some y | None \<Rightarrow> first_success stages x)"

definition spec_resolve ::
  "unicodedata \<Rightarrow> (string option \<times> string) list \<Rightarrow> resolved_row \<Rightarrow> resolved_row" where
  "spec_resolve U country_tokens r =
     r\<lparr>rs_country :=
         first_success
           [rs_country,
            \<lambda>r. (case rs_airline r of None \<Rightarrow> None | Some name \<Rightarrow> manual_entry U name),
            \<lambda>r. (case rs_airline r of
                    None \<Rightarrow> None
                  | Some name \<Rightarrow> first_token_country U name country_tokens)] r\<rparr>"

section \<open>The accented letters of the tables\<close>

text \<open>
  An instance of the Unicode parameter for running the examples. It agrees with the Unicode
  database on ASCII text and on the accented letters that occur in the tables of the
  repository: such a letter (two bytes, the first \<open>0xC3\<close>) decomposes into its base letter
  and a combining mark of the block U+0300 to U+033F (two bytes, the first \<open>0xCC\<close>), and
  the marks of that block are the characters removed as combining.
\<close>

definition FRENCH_ACCENTS :: "(char \<times> char \<times> char) list" where
  "FRENCH_ACCENTS =
     [(CHR 0x80, CHR ''A'', CHR 0x80), (CHR 0x89, CHR ''E'', CHR 0x81),
      (CHR 0x8E, CHR ''I'', CHR 0x82), (CHR 0xA0, CHR ''a'', CHR 0x80),
      (CHR 0xA7, CHR ''c'', CHR 0xA7), (CHR 0xA8, CHR ''e'', CHR 0x80),
      (CHR 0xA9, CHR ''e'', CHR 0x81), (CHR 0xAA, CHR ''e'', CHR 0x82),
      (CHR 0xAE, CHR ''i'', CHR 0x82), (CHR 0xAF, CHR ''i'', CHR 0x88),
      (CHR 0xB4, CHR ''o'', CHR 0x82)]"

fun french_nfkd :: "string \<Rightarrow> string" where
  "french_nfkd (x # y # s) =
     (if x = CHR 0xC3
      then (case map_of FRENCH_ACCENTS y of
              Some (base, mark) \<Rightarrow> base # CHR 0xCC # mark # french_nfkd s
            | None \<Rightarrow> x # y # french_nfkd s)
      else x # french_nfkd (y # s))"
| "french_nfkd s = s"

fun drop_marks :: "string \<Rightarrow> string" where
  "drop_marks (x # y # s) = (if x = CHR 0xCC then drop_marks s else x # drop_marks (y # s))"
| "drop_marks s = s"

definition french_unicodedata :: unicodedata where
  "french_unicodedata = \<lparr> nfkd = french_nfkd, drop_combining = drop_marks \<rparr>"

section \<open>Example inputs\<close>

text \<open>
  A small carrier (two aircraft) whose \<^verbatim>\<open>pct_a220\<close> cell is empty in the features file,
  and a carrier of forty aircraft with every component present.
\<close>

definition small_missing_row :: feat_row where
  "small_missing_row =
     \<lparr> fr_airline = ''TINY AIR'', fr_fleet_size = Fin 2, fr_n_models = Some (Fin 1),
       fr_diversity = Some (Fin (1 / 2)), fr_pct_neo = Some (Fin (1 / 2)),
       fr_pct_max = Some (Fin 0), fr_pct_a220 = Some NaN, fr_pct_787 = Some (Fin (1 / 5)),
       fr_pct_a350 = Some (Fin 0), fr_pct_a330neo = Some (Fin 0),
       fr_pct_newgen_narrow = Some (Fin (1 / 2)), fr_pct_newgen_wide = Some (Fin (1 / 5)) \<rparr>"

definition full_row :: feat_row where
  "full_row =
     \<lparr> fr_airline = ''BIG AIR'', fr_fleet_size = Fin 40, fr_n_models = Some (Fin 4),
       fr_diversity = Some (Fin (1 / 10)), fr_pct_neo = Some (Fin (1 / 4)),
       fr_pct_max = Some (Fin 0), fr_pct_a220 = Some (Fin (1 / 4)),
       fr_pct_787 = Some (Fin (1 / 4)), fr_pct_a350 = Some (Fin 0),
       fr_pct_a330neo = Some (Fin 0), fr_pct_newgen_narrow = Some (Fin (1 / 2)),
       fr_pct_newgen_wide = Some (Fin (1 / 4)) \<rparr>"

text \<open>The three aircraft of the end-to-end example, and the rows they aggregate to.\<close>

definition air_france_rows :: "raw_row list" where
  "air_france_rows =
     [\<lparr> rw_airline_name = Some ''AIR FRANCE'', rw_model = Some ''A320neo'',
         rw_country = Some ''France'' \<rparr>,
      \<lparr> rw_airline_name = Some ''AIR FRANCE'', rw_model = Some ''A320neo'',
         rw_country = Some ''France'' \<rparr>,
      \<lparr> rw_airline_name = Some ''AIR FRANCE'', rw_model = Some ''A321'',
         rw_country = Some ''France'' \<rparr>]"


definition grounded_agg :: agg_row where
  "grounded_agg =
     \<lparr> ag_airline = Some ''Air France'', ag_fleet_size = Fin 0,
       ag_new_gen_share = Some (Fin 0), ag_indice_modernite_v0 = Some (Fin 0),
       ag_indice_public = Some NaN, ag_indice_penalise = Some (Fin 0) \<rparr>"





text \<open>
  A features file that lacks the \<^verbatim>\<open>diversity\<close> column, with a row for an airline whose fleet
  size is 0 and which has two models.
\<close>

definition grounded_feat_row :: feat_row where
  "grounded_feat_row =
     \<lparr> fr_airline = ''Air France'', fr_fleet_size = Fin 0, fr_n_models = Some (Fin 2),
       fr_diversity = None, fr_pct_neo = Some (Fin 0), fr_pct_max = Some (Fin 0),
       fr_pct_a220 = Some (Fin 0), fr_pct_787 = Some (Fin 0), fr_pct_a350 = Some (Fin 0),
       fr_pct_a330neo = Some (Fin 0), fr_pct_newgen_narrow = Some (Fin 0),
       fr_pct_newgen_wide = Some (Fin 0) \<rparr>"

text \<open>
  Two observed countries, and an existing mapping file with a curated row for one of them
  and a row for a country that the raw data does not hold.
\<close>

definition observed_rows :: "raw_row list" where
  "observed_rows =
     [\<lparr> rw_airline_name = Some ''Pegasus'', rw_model = Some ''A320neo'',
         rw_country = Some ''Turquie'' \<rparr>,
      \<lparr> rw_airline_name = Some ''Air France'', rw_model = Some ''A350-900'',
         rw_country = Some ''France'' \<rparr>]"

definition turquie_row :: map_row where
  "turquie_row = \<lparr> mr_country = ''Turquie'', mr_country_code = ''TR'', mr_region = ''Europe'' \<rparr>"

definition maroc_row :: map_row where
  "maroc_row = \<lparr> mr_country = ''Maroc'', mr_country_code = ''MA'', mr_region = ''Africa'' \<rparr>"

definition curated_rows :: "map_row list" where
  "curated_rows = [turquie_row, maroc_row]"

text \<open>
  The regional example. The mapping file knows France only. In the raw data Air France has
  two aircraft registered in Belgique and one in France, and Royal Air Maroc has one aircraft
  registered in France. Five airlines are scored: Air France (most often Belgique in the raw
  data, although its name says France), Royal Air Maroc (France in the raw data, although the
  manual table and its name say Maroc), Aero Mongolia (absent from the raw data, Mongolie in
  the manual table, no country in its name), Mongolie Express (found by its name only) and
  Brussels Airlines (found by no stage).
\<close>

definition france_mapping :: "region_row list" where
  "france_mapping = [\<lparr> rg_country = Some ''France'', rg_region = Some ''Europe'' \<rparr>]"

definition registered_rows :: "raw_row list" where
  "registered_rows =
     [\<lparr> rw_airline_name = Some ''AIR FRANCE'', rw_model = Some ''A320neo'',
         rw_country = Some ''France'' \<rparr>,
      \<lparr> rw_airline_name = Some ''AIR FRANCE'', rw_model = Some ''A320neo'',
         rw_country = Some ''Belgique'' \<rparr>,
      \<lparr> rw_airline_name = Some ''AIR FRANCE'', rw_model = Some ''A321'',
         rw_country = Some ''Belgique'' \<rparr>,
      \<lparr> rw_airline_name = Some ''Royal Air Maroc'', rw_model = Some ''787-9'',
         rw_country = Some ''France'' \<rparr>]"

definition five_scores :: "scored list" where
  "five_scores =
     [\<lparr> sc_airline = Some ''Air France'', sc_modernity_index = Fin (6 / 10) \<rparr>,
      \<lparr> sc_airline = Some ''Royal Air Maroc'', sc_modernity_index = Fin (3 / 10) \<rparr>,
      \<lparr> sc_airline = Some ''Aero Mongolia'', sc_modernity_index = Fin (2 / 10) \<rparr>,
      \<lparr> sc_airline = Some ''Mongolie Express'', sc_modernity_index = Fin (1 / 10) \<rparr>,
      \<lparr> sc_airline = Some ''Brussels Airlines'', sc_modernity_index = Fin (9 / 10) \<rparr>]"

definition brussels_resolved :: resolved_row where
  "brussels_resolved =
     \<lparr> rs_airline = Some ''Brussels Airlines'', rs_modernity_index = Fin (9 / 10),
       rs_country = None \<rparr>"

definition brussels_merged :: merged_row where
  "brussels_merged = with_region brussels_resolved None"

definition maroc_resolved :: resolved_row where
  "maroc_resolved =
     \<lparr> rs_airline = Some ''Royal Air Maroc'', rs_modernity_index = Fin (3 / 10),
       rs_country = Some ''Maroc'' \<rparr>"

text \<open>An airline of the manual table whose country is written with an accent.\<close>

definition royal_star :: scored where
  "royal_star = \<lparr> sc_airline = Some ''Royal Star Aviation'', sc_modernity_index = Fin (1 / 2) \<rparr>"

section \<open>Properties of the scorer\<close>

lemma finite01_Fin: "finite01 v \<Longrightarrow> \<exists>x. v = Fin x \<and> 0 \<le> x \<and> x \<le> 1"
  by (cases v) (auto simp: finite01_def)

lemma clip01_finite01: "\<not> isna v \<Longrightarrow> finite01 (clip01 v)"
  by (cases v) (auto simp: finite01_def)

lemma to_prop_finite01: "finite01 (to_prop s)"
  by (cases s) (auto simp: to_prop_def finite01_def fgt_def)

lemma to_prop_unit: "0 \<le> x \<Longrightarrow> x \<le> 1 \<Longrightarrow> to_prop (Fin x) = Fin x"
  by (simp add: to_prop_def fgt_def)

lemma unit_prop_Fin: "\<exists>x. unit_prop c = Fin x"
  using finite01_Fin [OF to_prop_finite01] unfolding unit_prop_def by blast

lemma pct_newgen_narrow_finite01: "finite01 (pct_newgen_narrow r)"
proof (cases "both_grouped r")
  case True
  then show ?thesis by (simp add: pct_newgen_narrow_def to_prop_finite01)
next
  case False
  obtain a b c where "unit_prop (fr_pct_neo r) = Fin a" "unit_prop (fr_pct_max r) = Fin b"
    "unit_prop (fr_pct_a220 r) = Fin c"
    using unit_prop_Fin by metis
  with False show ?thesis
    by (simp add: pct_newgen_narrow_def finite01_def)
qed

lemma pct_newgen_wide_finite01: "finite01 (pct_newgen_wide r)"
proof (cases "both_grouped r")
  case True
  then show ?thesis by (simp add: pct_newgen_wide_def to_prop_finite01)
next
  case False
  obtain a b c where "unit_prop (fr_pct_787 r) = Fin a" "unit_prop (fr_pct_a350 r) = Fin b"
    "unit_prop (fr_pct_a330neo r) = Fin c"
    using unit_prop_Fin by metis
  with False show ?thesis
    by (simp add: pct_newgen_wide_def finite01_def)
qed

lemma pct_a220_finite01: "finite01 (pct_a220 r)"
  by (simp add: pct_a220_def to_prop_finite01)

lemma modernity_index_finite01: "finite01 (modernity_index r)"
proof -
  obtain n where n: "pct_newgen_narrow r = Fin n"
    using finite01_Fin [OF pct_newgen_narrow_finite01] by blast
  obtain w where w: "pct_newgen_wide r = Fin w"
    using finite01_Fin [OF pct_newgen_wide_finite01] by blast
  obtain a where a: "pct_a220 r = Fin a"
    using finite01_Fin [OF pct_a220_finite01] by blast
  show ?thesis by (simp add: modernity_index_def n w a finite01_def)
qed

lemma diversity_finite01: "diversity r = Inr d \<Longrightarrow> finite01 d"
proof (cases "fr_diversity r")
  case (Some v)
  assume "diversity r = Inr d"
  with Some show ?thesis by (auto simp: diversity_def to_prop_finite01)
next
  case None
  assume d: "diversity r = Inr d"
  with None obtain n where n: "fr_n_models r = Some n"
    by (cases "fr_n_models r") (auto simp: diversity_def)
  define q where "q = fdiv (fillna (Fin 0) n) (fleet_size_clean r)"
  have "d = clip01 (fillna (Fin 0) (if q = PInf then Fin 0 else q))"
    using d None n by (auto simp: diversity_def q_def Let_def)
  moreover have "\<not> isna (fillna (Fin 0) (if q = PInf then Fin 0 else q))"
    by (cases q) auto
  ultimately show ?thesis by (simp add: clip01_finite01)
qed

lemma missing_components_never: "\<not> missing_components r"
  using finite01_Fin [OF pct_newgen_narrow_finite01, of r]
    finite01_Fin [OF pct_newgen_wide_finite01, of r]
    finite01_Fin [OF pct_a220_finite01, of r]
  by (auto simp: missing_components_def)

lemmas scorer_defs = score_row_def diversity_def qa_notes_def missing_components_def
  modernity_index_def pct_newgen_narrow_def pct_newgen_wide_def pct_a220_def both_grouped_def
  to_prop_def fgt_def fleet_size_clean_def MIN_FLEET_def strip_semi_def strip_chars_def

text \<open>
  C2. When the three components of a row are present and lie between 0 and 1, the modernity
  index is the weighted sum 0.4, 0.4, 0.2 of them, clamped to the unit interval, and so lies
  between 0 and 1.
\<close>

theorem modernity_index_weighted_sum:
  assumes "fr_pct_newgen_narrow r = Some (Fin n)" and "fr_pct_newgen_wide r = Some (Fin w)"
    and "fr_pct_a220 r = Some (Fin a)"
    and "0 \<le> n" "n \<le> 1" "0 \<le> w" "w \<le> 1" "0 \<le> a" "a \<le> 1"
  shows "modernity_index r = Fin (clamp01 (4 / 10 * n + 4 / 10 * w + 2 / 10 * a))
       \<and> 0 \<le> clamp01 (4 / 10 * n + 4 / 10 * w + 2 / 10 * a)
       \<and> clamp01 (4 / 10 * n + 4 / 10 * w + 2 / 10 * a) \<le> 1"
proof -
  have g: "both_grouped r" using assms(1,2) by (simp add: both_grouped_def)
  have "pct_newgen_narrow r = Fin n" "pct_newgen_wide r = Fin w" "pct_a220 r = Fin a"
    using g assms by (simp_all add: pct_newgen_narrow_def pct_newgen_wide_def pct_a220_def
        to_prop_unit)
  then show ?thesis by (simp add: modernity_index_def clamp01_def)
qed

theorem modernity_index_weighted_sum_witness:
  "modernity_index full_row = Fin (7 / 20)"
proof -
  have "modernity_index full_row
      = Fin (clamp01 (4 / 10 * (1 / 2) + 4 / 10 * (1 / 4) + 2 / 10 * (1 / 4)))"
    using modernity_index_weighted_sum [of full_row "1 / 2" "1 / 4" "1 / 4"]
    by (simp add: full_row_def)
  then show ?thesis by (simp add: clamp01_def)
qed

text \<open>
  C3. The carrier \<open>small_missing_row\<close> has a fleet of two and an empty \<^verbatim>\<open>pct_a220\<close> cell. The
  empty cell counts as 0 in the weighted sum (0.4 * 0.5 + 0.4 * 0.2 + 0.2 * 0 = 0.28), but the
  notes hold only \<^verbatim>\<open>fleet_too_small\<close>: the test for a missing component runs after the cells
  were filled with 0 and never fires.
\<close>

theorem small_missing_row_notes:
  "score_row small_missing_row =
     Inr \<lparr> sr_airline = ''TINY AIR'', sr_fleet_size = Fin 2, sr_diversity = Fin (1 / 2),
           sr_modernity_index = Fin (7 / 25), sr_version_v1 = ''v1'',
           sr_qa_notes = ''fleet_too_small'' \<rparr>
   \<and> split_on CHR '';'' (qa_notes small_missing_row) = [''fleet_too_small'']"
  by (simp add: scorer_defs small_missing_row_def)

text \<open>
  C8, as the code has it. \<^verbatim>\<open>to_prop\<close> always returns a finite value between 0 and 1: a
  missing value becomes 0, a value of at most 1 is clamped, and a value above 1 is first
  divided by 100 (read as a percentage) and then clamped, so that it yields 1 only from 100
  upwards. The components, the diversity and the modernity index of every row are finite
  and between 0 and 1.
\<close>

theorem to_prop_rescales_and_clamps:
  "finite01 (to_prop s)
   \<and> to_prop NaN = Fin 0 \<and> to_prop PInf = Fin 1 \<and> to_prop NInf = Fin 0
   \<and> (x \<le> 1 \<longrightarrow> to_prop (Fin x) = Fin (clamp01 x))
   \<and> (1 < x \<longrightarrow> to_prop (Fin x) = Fin (min 1 (x / 100)))
   \<and> finite01 (pct_newgen_narrow r) \<and> finite01 (pct_newgen_wide r) \<and> finite01 (pct_a220 r)
   \<and> finite01 (modernity_index r)
   \<and> (diversity r = Inr d \<longrightarrow> finite01 d)"
proof -
  have "x \<le> 1 \<longrightarrow> to_prop (Fin x) = Fin (clamp01 x)"
    by (simp add: to_prop_def fgt_def clamp01_def)
  moreover have "1 < x \<longrightarrow> to_prop (Fin x) = Fin (min 1 (x / 100))"
    by (auto simp: to_prop_def fgt_def)
  moreover have "to_prop NaN = Fin 0 \<and> to_prop PInf = Fin 1 \<and> to_prop NInf = Fin 0"
    by (simp add: to_prop_def fgt_def)
  ultimately show ?thesis
    using to_prop_finite01 pct_newgen_narrow_finite01 pct_newgen_wide_finite01
      pct_a220_finite01 modernity_index_finite01 diversity_finite01
    by blast
qed

theorem to_prop_rescales_and_clamps_witness:
  "to_prop (Fin (- 3)) = Fin 0 \<and> to_prop (Fin 250) = Fin 1
   \<and> diversity full_row = Inr (Fin (1 / 10)) \<and> finite01 (Fin (1 / 10))"
proof -
  have d: "diversity full_row = Inr (Fin (1 / 10))"
    by (simp add: scorer_defs full_row_def)
  have "to_prop (Fin (- 3)) = Fin (clamp01 (- 3))"
    using to_prop_rescales_and_clamps [of NaN "- 3" full_row "Fin (1 / 10)"] by simp
  moreover have "to_prop (Fin 250) = Fin (min 1 (250 / 100))"
    using to_prop_rescales_and_clamps [of NaN 250 full_row "Fin (1 / 10)"] by simp
  moreover have "finite01 (Fin (1 / 10))"
    using to_prop_rescales_and_clamps [of NaN 250 full_row "Fin (1 / 10)"] d by simp
  ultimately show ?thesis using d by (simp add: clamp01_def)
qed

theorem to_prop_fifty_is_half:
  "to_prop (Fin 50) = Fin (1 / 2) \<and> to_prop (Fin 50) \<noteq> Fin 1"
  by (simp add: to_prop_def fgt_def)

section \<open>Properties of the classifier\<close>

text \<open>
  C4. The marketing name \<^verbatim>\<open>737 MAX 8\<close> and the code \<^verbatim>\<open>7M8\<close> are tagged as MAX. The
  designation \<^verbatim>\<open>737-8-200\<close> is not: no alternative of the MAX pattern matches it. The legacy
  flag of AIR-1, whose pattern list has \<^verbatim>\<open>737-8-200\<close> among the MAX variants, does recognise
  it.
\<close>

theorem max_family_examples:
  "is_max (tag_family ''737 MAX 8'') \<and> is_max (tag_family ''7M8'')
   \<and> \<not> is_max (tag_family ''737-8-200'')
   \<and> detect_new_gen ''737-8-200'' = 1"
  by code_simp

section \<open>Properties of the indices for small fleets\<close>










section \<open>Properties of the fleet aggregation\<close>

lemma drop_duplicates_distinct: "distinct (drop_duplicates xs)"
  by (simp add: drop_duplicates_def)

lemma set_drop_duplicates: "set (drop_duplicates xs) = set xs"
  by (simp add: drop_duplicates_def)

lemma count_tag_card:
  "count_tag tag raw k =
     card {p \<in> (\<lambda>r. (norm_name (rw_airline_name r), the (rw_model r))) `
                 {r \<in> set raw. rw_model r \<noteq> None}.
             fst p = k \<and> tag (tag_family (snd p))}"
proof -
  have d: "distinct (models_by_airline raw)"
    by (simp add: models_by_airline_def drop_duplicates_distinct)
  have s: "set (models_by_airline raw)
      = (\<lambda>r. (norm_name (rw_airline_name r), the (rw_model r))) `
          {r \<in> set raw. rw_model r \<noteq> None}"
    by (simp add: models_by_airline_def set_drop_duplicates)
  have "count_tag tag raw k
      = card ({p. fst p = k \<and> tag (tag_family (snd p))} \<inter> set (models_by_airline raw))"
    unfolding count_tag_def case_prod_unfold
    by (rule distinct_length_filter [OF d])
  also have "{p. fst p = k \<and> tag (tag_family (snd p))} \<inter> set (models_by_airline raw)
     = {p \<in> set (models_by_airline raw). fst p = k \<and> tag (tag_family (snd p))}"
    by blast
  finally show ?thesis by (simp only: s)
qed

lemma models_of_key_set:
  "set (map the (filter (\<lambda>m. m \<noteq> None) (map rw_model (filter (\<lambda>r. f r = k) raw))))
     = {m. \<exists>r \<in> set raw. f r = k \<and> rw_model r = Some m}" (is "?L = ?R")
proof
  show "?L \<subseteq> ?R"
  proof
    fix m assume "m \<in> ?L"
    then obtain r where "r \<in> set raw" "f r = k" "rw_model r \<noteq> None" "m = the (rw_model r)"
      by auto
    then show "m \<in> ?R" by auto
  qed
  show "?R \<subseteq> ?L"
  proof
    fix m assume "m \<in> ?R"
    then obtain r where r: "r \<in> set raw" "f r = k" "rw_model r = Some m" by auto
    then have "r \<in> set (filter (\<lambda>r. f r = k) raw)" by simp
    then have "rw_model r \<in> set (map rw_model (filter (\<lambda>r. f r = k) raw))"
      by (simp only: set_map) (rule imageI)
    with r have "Some m \<in> set (filter (\<lambda>m. m \<noteq> None)
        (map rw_model (filter (\<lambda>r. f r = k) raw)))"
      by simp
    then have "the (Some m) \<in> ?L" by (simp only: set_map) (rule imageI)
    then show "m \<in> ?L" by simp
  qed
qed

lemma n_models_table_lookup:
  assumes "r0 \<in> set raw" and "k = norm_name (rw_airline_name r0)"
  shows "map_of (n_models_table raw) k
       = Some (card {m. \<exists>r \<in> set raw. norm_name (rw_airline_name r) = k \<and> rw_model r = Some m})"
proof -
  have k: "k \<in> set (sort (remdups (map (\<lambda>r. norm_name (rw_airline_name r)) raw)))"
    using assms by auto
  have "map_of (n_models_table raw) k
      = Some (nunique (map the (filter (\<lambda>m. m \<noteq> None)
             (map rw_model (filter (\<lambda>r. norm_name (rw_airline_name r) = k) raw)))))"
    unfolding n_models_table_def using k
    by (simp only: map_of_map_restrict restrict_map_def if_True comp_def)
  then show ?thesis
    by (simp only: nunique_def length_remdups_card_conv models_of_key_set)
qed

lemma fleet_size_counts_rows:
  "a1_fleet_size (air1_group (work U df) k)
     = length (filter (\<lambda>r. normalize_text U (rw_airline_name r) = k) df)"
  by (simp add: air1_group_def work_def Let_def filter_map comp_def)

lemma air_france_example:
  "map_sum (\<lambda>e. e)
       (map (\<lambda>f. (ft_airline f, ft_fleet_size f, ft_n_models f, ft_n_neo f, ft_pct_neo f)))
       (build_features (map agg_row_of (air1_agg ascii_unicodedata air_france_rows))
          air_france_rows)
     = Inr [(Some ''AIR FRANCE'', Fin 3, Fin 2, Fin 1, Fin (1 / 3))]"
  by code_simp

text \<open>
  C5. The fleet size of an airline is the number of its raw rows, repeated rows included.
  The number of models is the number of distinct models among its rows, and each family
  count is the number of distinct pairs of airline and model whose model carries the tag,
  however often a pair is repeated. For the three Air France aircraft (A320neo twice, A321
  once) the export succeeds and the features row has fleet size 3, two models, one NEO model
  and a NEO share of one third.
\<close>

theorem fleet_aggregation_counts:
  assumes "r0 \<in> set raw" and "k = norm_name (rw_airline_name r0)"
  shows "a1_fleet_size (air1_group (work U raw) a)
           = length (filter (\<lambda>r. normalize_text U (rw_airline_name r) = a) raw)
       \<and> map_of (n_models_table raw) k
           = Some (card {m. \<exists>r \<in> set raw. norm_name (rw_airline_name r) = k
                                       \<and> rw_model r = Some m})
       \<and> count_tag tag raw k
           = card {p \<in> (\<lambda>r. (norm_name (rw_airline_name r), the (rw_model r))) `
                         {r \<in> set raw. rw_model r \<noteq> None}.
                     fst p = k \<and> tag (tag_family (snd p))}
       \<and> map_sum (\<lambda>e. e)
              (map (\<lambda>f. (ft_airline f, ft_fleet_size f, ft_n_models f, ft_n_neo f, ft_pct_neo f)))
              (build_features (map agg_row_of (air1_agg ascii_unicodedata air_france_rows))
                 air_france_rows)
           = Inr [(Some ''AIR FRANCE'', Fin 3, Fin 2, Fin 1, Fin (1 / 3))]"
  using fleet_size_counts_rows [of U raw a] n_models_table_lookup [OF assms]
    count_tag_card [of tag raw k] air_france_example
  by (simp only: simp_thms)

theorem fleet_aggregation_counts_witness:
  "a1_fleet_size (air1_group (work ascii_unicodedata air_france_rows) ''AIR FRANCE'') = 3
   \<and> map_of (n_models_table air_france_rows) ''AIR FRANCE'' = Some 2
   \<and> count_tag is_neo air_france_rows ''AIR FRANCE'' = 1"
proof -
  define r0 where "r0 = \<lparr> rw_airline_name = Some ''AIR FRANCE'', rw_model = Some ''A321'',
         rw_country = Some ''France'' \<rparr>"
  have m: "r0 \<in> set air_france_rows" by (simp add: r0_def air_france_rows_def)
  have n: "norm_name (Some ''AIR FRANCE'') = ''AIR FRANCE''" by code_simp
  have k: "''AIR FRANCE'' = norm_name (rw_airline_name r0)" by (simp add: r0_def n)
  have a: "length (filter (\<lambda>r. normalize_text ascii_unicodedata (rw_airline_name r)
              = ''AIR FRANCE'') air_france_rows) = 3"
    by code_simp
  have b: "map_of (n_models_table air_france_rows) ''AIR FRANCE'' = Some 2" by code_simp
  have c: "count_tag is_neo air_france_rows ''AIR FRANCE'' = 1" by code_simp
  from fleet_aggregation_counts [OF m k, of ascii_unicodedata "''AIR FRANCE''" is_neo]
  show ?thesis by (simp only: a b c simp_thms)
qed

section \<open>Properties of the ratios\<close>

lemma ratio_zero_raises: "Fin 0 \<in> set den \<Longrightarrow> ratio num den = Inl TypeError"
  by (simp add: ratio_def list_ex_iff)

lemma ratio_no_zero:
  "Fin 0 \<notin> set den \<Longrightarrow>
   ratio num den
     = Inr (map (\<lambda>(n, d). clip01 (fillna (Fin 0) (fdiv n d))) (zip (map (fillna (Fin 0)) num) den))"
  by (simp add: ratio_def list_ex_iff)

lemma build_features_zero_raises:
  assumes "a \<in> set agg" and "ag_fleet_size a = Fin 0"
  shows "build_features agg raw = Inl TypeError"
proof -
  have "Fin 0 \<in> set (map (\<lambda>c. ag_fleet_size (cn_agg c)) (map (counted_row raw) agg))"
    using assms by (force simp: counted_row_def Let_def)
  then show ?thesis
    by (simp add: build_features_def Let_def ratio_zero_raises and_then_def)
qed

text \<open>
  C9. The workbook row \<open>grounded_agg\<close> has a fleet size of 0. The export does not write 0 in its
  proportions: the first call of \<^verbatim>\<open>ratio\<close> raises \<^verbatim>\<open>TypeError\<close> and the run stops. The scorer,
  which recomputes the diversity of such a row when the column is absent, does yield 0.
\<close>

theorem zero_fleet_export_raises:
  "build_features [grounded_agg] air_france_rows = Inl TypeError
   \<and> ratio [Fin 2] [Fin 0] = Inl TypeError
   \<and> diversity grounded_feat_row = Inr (Fin 0)"
proof -
  have "grounded_agg \<in> set [grounded_agg]" and "ag_fleet_size grounded_agg = Fin 0"
    by (simp_all add: grounded_agg_def)
  then have "build_features [grounded_agg] air_france_rows = Inl TypeError"
    by (rule build_features_zero_raises)
  moreover have "ratio [Fin 2] [Fin 0] = Inl TypeError"
    by (simp add: ratio_def)
  moreover have "diversity grounded_feat_row = Inr (Fin 0)"
    by (simp add: diversity_def grounded_feat_row_def fleet_size_clean_def)
  ultimately show ?thesis by simp
qed

section \<open>Properties of the country mapping file\<close>













lemma observed_mapping:
  "mapping_new no_libraries observed_rows (Some curated_rows)
     = [\<lparr> mr_country = ''France'', mr_country_code = ''FR'', mr_region = ''Europe'' \<rparr>,
        turquie_row]"
  by code_simp






section \<open>Properties of the country resolution\<close>

lemma raw_pairs_count:
  "length (filter (\<lambda>p. p = (name, c)) (raw_pairs raw)) = pair_count raw name c"
  by (induction raw) (auto simp: raw_pairs_def pair_count_def)

lemma raw_pairs_countries:
  "set (map snd (filter (\<lambda>p. fst p = name) (raw_pairs raw))) = {c. 0 < pair_count raw name c}"
proof -
  have "c \<in> snd ` {p \<in> set (raw_pairs raw). fst p = name} \<longleftrightarrow> (name, c) \<in> set (raw_pairs raw)"
    for c by force
  moreover have "(name, c) \<in> set (raw_pairs raw) \<longleftrightarrow> 0 < pair_count raw name c" for c
    unfolding raw_pairs_count [symmetric] by (simp add: filter_empty_conv)
  ultimately show ?thesis by auto
qed

lemma raw_pairs_names:
  "name \<in> set (map fst (raw_pairs raw)) \<longleftrightarrow> (\<exists>c. 0 < pair_count raw name c)"
proof -
  have m: "(name, c) \<in> set (raw_pairs raw) \<longleftrightarrow> 0 < pair_count raw name c" for c
    unfolding raw_pairs_count [symmetric] by (simp add: filter_empty_conv)
  show ?thesis
  proof
    assume "name \<in> set (map fst (raw_pairs raw))"
    then obtain p where p: "p \<in> set (raw_pairs raw)" "fst p = name" by auto
    then have "(name, snd p) \<in> set (raw_pairs raw)" by (metis prod.collapse)
    then show "\<exists>c. 0 < pair_count raw name c" using m by blast
  next
    assume "\<exists>c. 0 < pair_count raw name c"
    then obtain c where "(name, c) \<in> set (raw_pairs raw)" using m by blast
    then have "fst (name, c) \<in> fst ` set (raw_pairs raw)" by (rule imageI)
    then show "name \<in> set (map fst (raw_pairs raw))" by simp
  qed
qed

lemma idxmax_sorted:
  assumes "sorted (c0 # cs)"
  shows "idxmax (c0, f c0) (map (\<lambda>c. (c, f c)) cs) \<in> set (c0 # cs)
       \<and> (\<forall>c \<in> set (c0 # cs). f c \<le> f (idxmax (c0, f c0) (map (\<lambda>c. (c, f c)) cs)))
       \<and> (\<forall>c \<in> set (c0 # cs). f c = f (idxmax (c0, f c0) (map (\<lambda>c. (c, f c)) cs))
             \<longrightarrow> idxmax (c0, f c0) (map (\<lambda>c. (c, f c)) cs) \<le> c)"
  using assms
proof (induction cs arbitrary: c0)
  case Nil
  then show ?case by simp
next
  case (Cons c1 cs)
  show ?case
  proof (cases "f c0 < f c1")
    case True
    let ?r = "idxmax (c1, f c1) (map (\<lambda>c. (c, f c)) cs)"
    have s: "sorted (c1 # cs)" using Cons.prems by simp
    note ih = Cons.IH [OF s]
    have r: "idxmax (c0, f c0) (map (\<lambda>c. (c, f c)) (c1 # cs)) = ?r" using True by simp
    have "f c1 \<le> f ?r" using ih by simp
    with True have "f c0 < f ?r" by simp
    with ih show ?thesis unfolding r by auto
  next
    case False
    let ?r = "idxmax (c0, f c0) (map (\<lambda>c. (c, f c)) cs)"
    have s: "sorted (c0 # cs)" using Cons.prems by auto
    note ih = Cons.IH [OF s]
    have r: "idxmax (c0, f c0) (map (\<lambda>c. (c, f c)) (c1 # cs)) = ?r" using False by simp
    have le: "f c0 \<le> f ?r" using ih by simp
    with False have c1: "f c1 \<le> f ?r" by simp
    have "?r \<le> c1" if "f c1 = f ?r"
    proof -
      from that False le have "f c0 = f ?r" by simp
      with ih have "?r \<le> c0" by simp
      moreover have "c0 \<le> c1" using Cons.prems by simp
      ultimately show ?thesis by simp
    qed
    with ih c1 show ?thesis unfolding r by auto
  qed
qed

lemma most_frequent_unique:
  "most_frequent_country raw name c \<Longrightarrow> most_frequent_country raw name d \<Longrightarrow> c = d"
proof -
  assume c: "most_frequent_country raw name c" and d: "most_frequent_country raw name d"
  have "pair_count raw name c = pair_count raw name d"
    using c d by (meson most_frequent_country_def order_antisym)
  then have "c \<le> d" "d \<le> c" using c d by (simp_all add: most_frequent_country_def)
  then show ?thesis by simp
qed

lemma airline_country_step:
  assumes "0 < pair_count raw name c0"
  shows "\<exists>c. (case country_counts raw name of [] \<Rightarrow> [] | g # gs \<Rightarrow> [(name, idxmax g gs)])
              = [(name, c)] \<and> most_frequent_country raw name c"
proof -
  define cs where "cs = sort (remdups (map snd (filter (\<lambda>p. fst p = name) (raw_pairs raw))))"
  define f where "f = pair_count raw name"
  have set_cs: "set cs = {c. 0 < f c}" by (simp add: cs_def f_def raw_pairs_countries del: set_map)
  have srt: "sorted cs" by (simp add: cs_def)
  have cc: "country_counts raw name = map (\<lambda>c. (c, f c)) cs"
    by (simp add: country_counts_def cs_def f_def raw_pairs_count)
  have "c0 \<in> set cs" using assms by (simp add: set_cs f_def)
  then obtain d ds where ds: "cs = d # ds" by (cases cs) auto
  define r where "r = idxmax (d, f d) (map (\<lambda>c. (c, f c)) ds)"
  have i: "r \<in> set cs" "\<forall>c \<in> set cs. f c \<le> f r" "\<forall>c \<in> set cs. f c = f r \<longrightarrow> r \<le> c"
    using idxmax_sorted [of d ds f] srt unfolding ds r_def by blast+
  have pos: "0 < f r" using i(1) by (simp add: set_cs)
  have mx: "f c \<le> f r" for c
  proof (cases "c \<in> set cs")
    case True then show ?thesis using i(2) by simp
  next
    case False then have "f c = 0" by (simp add: set_cs)
    then show ?thesis by simp
  qed
  have tie: "r \<le> c" if "f c = f r" for c
  proof -
    from that pos have "c \<in> set cs" by (simp add: set_cs)
    with i(3) that show ?thesis by simp
  qed
  have "most_frequent_country raw name r"
    unfolding most_frequent_country_def f_def [symmetric] using pos mx tie by blast
  moreover have "(case country_counts raw name of [] \<Rightarrow> [] | g # gs \<Rightarrow> [(name, idxmax g gs)])
      = [(name, r)]"
    by (simp add: cc ds r_def)
  ultimately show ?thesis by blast
qed

lemma in_concat_map: "x \<in> set (concat (map g xs)) \<longleftrightarrow> (\<exists>y \<in> set xs. x \<in> set (g y))"
  by auto

lemma airline_country_iff:
  "(name, c) \<in> set (airline_country raw) \<longleftrightarrow> most_frequent_country raw name c"
proof -
  define g where "g = (\<lambda>n. case country_counts raw n of [] \<Rightarrow> []
                               | g # gs \<Rightarrow> [(n, idxmax g gs)])"
  define names where "names = sort (remdups (map fst (raw_pairs raw)))"
  have ac: "airline_country raw = concat (map g names)"
    by (simp add: airline_country_def g_def names_def)
  have names: "n \<in> set names \<longleftrightarrow> (\<exists>c. 0 < pair_count raw n c)" for n
    using raw_pairs_names [of n raw] by (simp add: names_def del: set_map)
  have step: "\<exists>d. g n = [(n, d)] \<and> most_frequent_country raw n d"
    if "0 < pair_count raw n c0" for n c0
    using airline_country_step [OF that] by (simp add: g_def)
  show ?thesis
  proof
    assume "(name, c) \<in> set (airline_country raw)"
    then obtain n where n: "n \<in> set names" and m: "(name, c) \<in> set (g n)"
      unfolding ac in_concat_map by blast
    from n obtain c0 where "0 < pair_count raw n c0" using names by blast
    from step [OF this] obtain d where d: "g n = [(n, d)]"
      and mf: "most_frequent_country raw n d" by blast
    from m d have "name = n" "c = d" by simp_all
    with mf show "most_frequent_country raw name c" by simp
  next
    assume mf: "most_frequent_country raw name c"
    then have pos: "0 < pair_count raw name c" by (simp add: most_frequent_country_def)
    then have n: "name \<in> set names" using names by blast
    from step [OF pos] obtain d where d: "g name = [(name, d)]"
      and mfd: "most_frequent_country raw name d" by blast
    have "d = c" using most_frequent_unique [OF mfd mf] .
    with d have "(name, c) \<in> set (g name)" by simp
    with n show "(name, c) \<in> set (airline_country raw)"
      unfolding ac in_concat_map by blast
  qed
qed

lemma direct_join_set:
  "set (direct_join raw scores)
     = (\<Union>s \<in> set scores.
          if direct_countries raw s = {} then {with_country s None}
          else (\<lambda>c. with_country s (Some c)) ` direct_countries raw s)"
proof -
  define found where "found = (\<lambda>s::scored. map snd
      (filter (\<lambda>(name, c). airline_key name = airline_key (py_str (sc_airline s)))
              (airline_country raw)))"
  define g where "g = (\<lambda>s. if found s = [] then [with_country s None]
                            else map (\<lambda>c. with_country s (Some c)) (found s))"
  have dj: "direct_join raw scores = concat (map g scores)"
    unfolding direct_join_def g_def found_def Let_def by (rule refl)
  have f: "set (found s) = direct_countries raw s" for s
  proof -
    have "c \<in> set (found s) \<longleftrightarrow> (\<exists>name. (name, c) \<in> set (airline_country raw)
             \<and> airline_key name = airline_key (py_str (sc_airline s)))" for c
      unfolding found_def by force
    then show ?thesis
      unfolding direct_countries_def airline_country_iff by blast
  qed
  have e: "found s = [] \<longleftrightarrow> direct_countries raw s = {}" for s
    using f [of s] by auto
  have "set (g s) = (if direct_countries raw s = {} then {with_country s None}
          else (\<lambda>c. with_country s (Some c)) ` direct_countries raw s)" for s
    by (simp add: g_def e f)
  then show ?thesis unfolding dj by (simp add: set_concat)
qed

lemma map_of_rev_last:
  "map_of (rev (map (\<lambda>(k, v). (h k, v)) xs)) x
     = (case filter (\<lambda>(k, v). h k = x) xs of [] \<Rightarrow> None | e # es \<Rightarrow> Some (snd (last (e # es))))"
proof (induction xs)
  case Nil
  then show ?case by simp
next
  case (Cons a xs)
  obtain k v where a: "a = (k, v)" by (cases a)
  define later where "later = filter (\<lambda>(k, v). h k = x) xs"
  have ih: "map_of (rev (map (\<lambda>(k, v). (h k, v)) xs)) x
      = (case later of [] \<Rightarrow> None | e # es \<Rightarrow> Some (snd (last (e # es))))"
    using Cons.IH by (simp add: later_def)
  have l: "map_of (rev (map (\<lambda>(k, v). (h k, v)) (a # xs))) x
      = (case map_of (rev (map (\<lambda>(k, v). (h k, v)) xs)) x of
           Some y \<Rightarrow> Some y | None \<Rightarrow> (if h k = x then Some v else None))"
    by (simp add: a map_add_def split: option.splits)
  have r: "filter (\<lambda>(k, v). h k = x) (a # xs) = (if h k = x then (k, v) # later else later)"
    by (simp add: a later_def)
  show ?case
    unfolding l r ih by (cases later) (auto split: if_splits)
qed

lemma get_manual_country_entry:
  "get_manual_country U None = None"
  "get_manual_country U (Some name) = manual_entry U name"
  by (simp_all add: get_manual_country_def MANUAL_COUNTRY_def manual_entry_def map_of_rev_last)

lemma manual_override_map:
  "manual_override U merged
     = map (\<lambda>r. if rs_country r = None
                 then r\<lparr>rs_country := get_manual_country U (rs_airline r)\<rparr> else r) merged"
proof (cases "list_ex (\<lambda>r. rs_country r = None) merged")
  case True
  then show ?thesis by (simp add: manual_override_def)
next
  case False
  then have "\<forall>r \<in> set merged. rs_country r \<noteq> None" by (simp add: list_ex_iff)
  then have "map (\<lambda>r. if rs_country r = None
                 then r\<lparr>rs_country := get_manual_country U (rs_airline r)\<rparr> else r) merged = merged"
    by (intro map_idI) auto
  with False show ?thesis by (simp add: manual_override_def)
qed

lemma name_heuristic_map:
  "name_heuristic U toks merged
     = map (\<lambda>r. if rs_country r = None
                 then r\<lparr>rs_country := guess_country_from_name U (rs_airline r) toks\<rparr> else r) merged"
proof (cases "list_ex (\<lambda>r. rs_country r = None) merged")
  case True
  then show ?thesis by (simp add: name_heuristic_def)
next
  case False
  then have "\<forall>r \<in> set merged. rs_country r \<noteq> None" by (simp add: list_ex_iff)
  then have "map (\<lambda>r. if rs_country r = None
                 then r\<lparr>rs_country := guess_country_from_name U (rs_airline r) toks\<rparr> else r) merged = merged"
    by (intro map_idI) auto
  with False show ?thesis by (simp add: name_heuristic_def)
qed

lemma get_manual_country_spec:
  "get_manual_country U airline
     = (case airline of None \<Rightarrow> None | Some name \<Rightarrow> manual_entry U name)"
  by (cases airline) (simp_all add: get_manual_country_entry)

lemma find_filter_head:
  "find P xs = (case filter P xs of [] \<Rightarrow> None | x # _ \<Rightarrow> Some x)"
  by (induction xs) auto

lemma contains_empty: "contains [] tok \<longleftrightarrow> tok = []"
  by simp

lemma guess_country_first_token:
  "guess_country_from_name U None toks = None"
  "guess_country_from_name U (Some name) toks = first_token_country U name toks"
proof -
  show "guess_country_from_name U None toks = None"
    by (simp add: guess_country_from_name_def)
  define P where "P = (\<lambda>(country :: string option, tok).
      tok \<noteq> [] \<and> contains (normalize_str U (Some name)) tok)"
  have e: "filter P toks = []" if "normalize_str U (Some name) = []"
    using that by (auto simp: P_def filter_empty_conv)
  have "guess_country_from_name U (Some name) toks
      = (case filter P toks of [] \<Rightarrow> None | (country, tok) # _ \<Rightarrow> country)"
    using e by (auto simp: guess_country_from_name_def Let_def P_def)
  also have "\<dots> = first_token_country U name toks"
    unfolding first_token_country_def P_def [symmetric] find_filter_head
    by (cases "filter P toks") auto
  finally show "guess_country_from_name U (Some name) toks = first_token_country U name toks" .
qed

lemma guess_country_spec:
  "guess_country_from_name U airline toks
     = (case airline of None \<Rightarrow> None | Some name \<Rightarrow> first_token_country U name toks)"
  by (cases airline) (simp_all add: guess_country_first_token)

lemma stages_are_chain:
  "(\<lambda>r. if rs_country r = None
         then r\<lparr>rs_country := guess_country_from_name U (rs_airline r) toks\<rparr> else r)
     ((\<lambda>r. if rs_country r = None
           then r\<lparr>rs_country := get_manual_country U (rs_airline r)\<rparr> else r) r)
   = spec_resolve U toks r"
  by (cases "rs_country r"; cases "get_manual_country U (rs_airline r)")
     (simp_all add: spec_resolve_def get_manual_country_spec [symmetric]
        guess_country_spec [symmetric] split: option.splits)

lemma resolve_countries_chain:
  "resolve_countries U raw mapping scores
     = map (spec_resolve U (build_country_token_table U (full_mapping mapping)))
           (direct_join raw scores)"
  unfolding resolve_countries_def manual_override_map name_heuristic_map map_map comp_def
  by (simp only: stages_are_chain)

lemma region_join_unresolved:
  assumes "m \<in> set (region_join U M rows)" and "mg_country m = None"
  shows "mg_region m = None"
proof -
  from assms(1) obtain r where r: "r \<in> set rows"
    and m: "m \<in> set (let country_norm = (case rs_country r of None \<Rightarrow> None
                                                | Some c \<Rightarrow> Some (normalize_str U (Some c)));
            found = map rg_region
                        (filter (\<lambda>m. Some (normalize_str U (rg_country m)) = country_norm) M)
        in if found = [] then [with_region r None] else map (with_region r) found)"
    unfolding region_join_def by auto
  have c: "mg_country m = rs_country r"
    using m by (auto simp: Let_def with_region_def split: if_splits)
  with assms(2) have "rs_country r = None" by simp
  with m show ?thesis by (simp add: with_region_def)
qed

lemma region_join_single_unresolved:
  "rs_country r = None \<Longrightarrow> region_join U M [r] = [with_region r None]"
  by (simp add: region_join_def)


lemma merged_unresolved:
  assumes "m \<in> set (merged_rows U raw mapping scores)" and "mg_country m = None"
  shows "mg_region m = None"
    and "(mg_airline m, None) \<in> set (missing U raw mapping scores)"
    and "m \<notin> set (aggregated_rows U raw mapping scores)"
proof -
  show r: "mg_region m = None"
    using assms unfolding merged_rows_def by (rule region_join_unresolved)
  have "(mg_airline m, mg_country m)
      \<in> (\<lambda>m. (mg_airline m, mg_country m)) `
          set (filter (\<lambda>m. mg_region m = None) (merged_rows U raw mapping scores))"
    using assms(1) r by (intro imageI) simp
  then show "(mg_airline m, None) \<in> set (missing U raw mapping scores)"
    by (simp add: missing_def set_drop_duplicates assms(2))
  show "m \<notin> set (aggregated_rows U raw mapping scores)"
    using r by (simp add: aggregated_rows_def)
qed

text \<open>
  C6. First stage: the direct join gives a score row one row for each country that is the most
  frequent country of a raw airline with the row's upper-cased, trimmed name, and a row
  without country when there is none; the table it joins with pairs an airline with exactly
  its most frequent country. Second stage: the manual lookup answers with the entry of the
  manual table for the normalised name. Third stage: the heuristic answers with the country of
  the first row of the token table whose token occurs in the normalised name. Order: the country of every row after the three
  stages is the answer of the first stage that has one, in the order direct join, manual
  table, name heuristic. A row whose country is still empty after the three stages gets no
  region, is listed in the side file, and is not among the rows that are aggregated; every
  aggregated row has a country and a region.
\<close>

theorem resolution_in_stage_order:
  "set (direct_join raw scores)
     = (\<Union>s \<in> set scores.
          if direct_countries raw s = {} then {with_country s None}
          else (\<lambda>c. with_country s (Some c)) ` direct_countries raw s)
   \<and> ((name, c) \<in> set (airline_country raw) \<longleftrightarrow> most_frequent_country raw name c)
   \<and> get_manual_country U None = None
   \<and> get_manual_country U (Some airline) = manual_entry U airline
   \<and> guess_country_from_name U None toks = None
   \<and> guess_country_from_name U (Some airline) toks = first_token_country U airline toks
   \<and> resolve_countries U raw mapping scores
       = map (spec_resolve U (build_country_token_table U (full_mapping mapping)))
             (direct_join raw scores)
   \<and> (\<forall>m \<in> set (merged_rows U raw mapping scores).
         mg_country m = None \<longrightarrow>
           mg_region m = None
           \<and> (mg_airline m, None) \<in> set (missing U raw mapping scores)
           \<and> m \<notin> set (aggregated_rows U raw mapping scores))
   \<and> (\<forall>m \<in> set (aggregated_rows U raw mapping scores).
         mg_country m \<noteq> None \<and> mg_region m \<noteq> None)"
proof -
  have a: "\<forall>m \<in> set (merged_rows U raw mapping scores).
         mg_country m = None \<longrightarrow>
           mg_region m = None
           \<and> (mg_airline m, None) \<in> set (missing U raw mapping scores)
           \<and> m \<notin> set (aggregated_rows U raw mapping scores)"
    using merged_unresolved by blast
  have b: "\<forall>m \<in> set (aggregated_rows U raw mapping scores).
         mg_country m \<noteq> None \<and> mg_region m \<noteq> None"
  proof
    fix m assume m: "m \<in> set (aggregated_rows U raw mapping scores)"
    then have "m \<in> set (merged_rows U raw mapping scores)" and r: "mg_region m \<noteq> None"
      by (simp_all add: aggregated_rows_def)
    with merged_unresolved(1) [of m U raw mapping scores]
    show "mg_country m \<noteq> None \<and> mg_region m \<noteq> None" by blast
  qed
  show ?thesis
    by (intro conjI direct_join_set airline_country_iff get_manual_country_entry
        guess_country_first_token resolve_countries_chain a b)
qed

lemma registered_airline_country:
  "airline_country registered_rows
     = [(''AIR FRANCE'', ''Belgique''), (''Royal Air Maroc'', ''France'')]"
  by code_simp

lemma five_scores_resolved:
  "resolve_countries french_unicodedata registered_rows france_mapping five_scores
     = [\<lparr> rs_airline = Some ''Air France'', rs_modernity_index = Fin (6 / 10),
          rs_country = Some ''Belgique'' \<rparr>,
        \<lparr> rs_airline = Some ''Royal Air Maroc'', rs_modernity_index = Fin (3 / 10),
          rs_country = Some ''France'' \<rparr>,
        \<lparr> rs_airline = Some ''Aero Mongolia'', rs_modernity_index = Fin (2 / 10),
          rs_country = Some ''Mongolie'' \<rparr>,
        \<lparr> rs_airline = Some ''Mongolie Express'', rs_modernity_index = Fin (1 / 10),
          rs_country = Some ''Mongolie'' \<rparr>,
        brussels_resolved]"
  by code_simp

lemma five_scores_merged:
  "merged_rows french_unicodedata registered_rows france_mapping five_scores
     = [\<lparr> mg_airline = Some ''Air France'', mg_modernity_index = Fin (6 / 10),
          mg_country = Some ''Belgique'', mg_region = None \<rparr>,
        \<lparr> mg_airline = Some ''Royal Air Maroc'', mg_modernity_index = Fin (3 / 10),
          mg_country = Some ''France'', mg_region = Some ''Europe'' \<rparr>,
        \<lparr> mg_airline = Some ''Aero Mongolia'', mg_modernity_index = Fin (2 / 10),
          mg_country = Some ''Mongolie'', mg_region = Some ''Asia'' \<rparr>,
        \<lparr> mg_airline = Some ''Mongolie Express'', mg_modernity_index = Fin (1 / 10),
          mg_country = Some ''Mongolie'', mg_region = Some ''Asia'' \<rparr>,
        brussels_merged]"
  unfolding merged_rows_def five_scores_resolved by code_simp

lemma five_scores_summary:
  "region_summary french_unicodedata registered_rows france_mapping five_scores
     = Inr ([(Some ''Air France'', Some ''Belgique''), (Some ''Brussels Airlines'', None)],
            [\<lparr> sm_region = ''Asia'', sm_n_airlines = 2,
                sm_mean_modernity_index = Fin (3 / 20) \<rparr>,
             \<lparr> sm_region = ''Europe'', sm_n_airlines = 1,
                sm_mean_modernity_index = Fin (3 / 10) \<rparr>])"
  unfolding region_summary_def aggregated_rows_def missing_def five_scores_merged
  by code_simp

lemma other_stages_would_differ:
  "get_manual_country french_unicodedata (Some ''Royal Air Maroc'') = Some ''Maroc''"
  "get_manual_country french_unicodedata (Some ''Aero Mongolia'') = Some ''Mongolie''"
  "guess_country_from_name french_unicodedata (Some ''Air France'')
     (build_country_token_table french_unicodedata (full_mapping france_mapping))
     = Some ''France''"
  "guess_country_from_name french_unicodedata (Some ''Aero Mongolia'')
     (build_country_token_table french_unicodedata (full_mapping france_mapping))
     = None"
  by code_simp+

theorem resolution_in_stage_order_witness:
  "most_frequent_country registered_rows ''AIR FRANCE'' ''Belgique''
   \<and> manual_entry french_unicodedata ''Royal Air Maroc'' = Some ''Maroc''
   \<and> manual_entry french_unicodedata ''Aero Mongolia'' = Some ''Mongolie''
   \<and> first_token_country french_unicodedata ''Air France''
        (build_country_token_table french_unicodedata (full_mapping france_mapping))
       = Some ''France''
   \<and> first_token_country french_unicodedata ''Aero Mongolia''
        (build_country_token_table french_unicodedata (full_mapping france_mapping))
       = None
   \<and> map rs_country
        (map (spec_resolve french_unicodedata
                (build_country_token_table french_unicodedata (full_mapping france_mapping)))
             (direct_join registered_rows five_scores))
       = [Some ''Belgique'', Some ''France'', Some ''Mongolie'', Some ''Mongolie'', None]
   \<and> mg_country brussels_merged = None
   \<and> mg_region brussels_merged = None
   \<and> (Some ''Brussels Airlines'', None)
       \<in> set (missing french_unicodedata registered_rows france_mapping five_scores)
   \<and> brussels_merged
       \<notin> set (aggregated_rows french_unicodedata registered_rows france_mapping five_scores)"
proof -
  let ?T = "build_country_token_table french_unicodedata (full_mapping france_mapping)"
  have c: "mg_country brussels_merged = None"
    "mg_airline brussels_merged = Some ''Brussels Airlines''"
    by (simp_all add: brussels_merged_def brussels_resolved_def with_region_def)
  have m: "brussels_merged
      \<in> set (merged_rows french_unicodedata registered_rows france_mapping five_scores)"
    by (simp add: five_scores_merged)
  note t = resolution_in_stage_order
    [where raw = registered_rows and scores = five_scores and name = "''AIR FRANCE''"
       and c = "''Belgique''" and U = french_unicodedata and mapping = france_mapping
       and toks = ?T]
  note ram = t [where airline = "''Royal Air Maroc''"]
  note aero = t [where airline = "''Aero Mongolia''"]
  note af = t [where airline = "''Air France''"]
  have mf: "most_frequent_country registered_rows ''AIR FRANCE'' ''Belgique''"
    using ram [THEN conjunct2, THEN conjunct1] by (simp add: registered_airline_country)
  have e1: "manual_entry french_unicodedata ''Royal Air Maroc'' = Some ''Maroc''"
    using ram [THEN conjunct2, THEN conjunct2, THEN conjunct2, THEN conjunct1]
    by (simp add: other_stages_would_differ)
  have e2: "manual_entry french_unicodedata ''Aero Mongolia'' = Some ''Mongolie''"
    using aero [THEN conjunct2, THEN conjunct2, THEN conjunct2, THEN conjunct1]
    by (simp add: other_stages_would_differ)
  have g1: "first_token_country french_unicodedata ''Air France'' ?T = Some ''France''"
    using af [THEN conjunct2, THEN conjunct2, THEN conjunct2, THEN conjunct2, THEN conjunct2,
        THEN conjunct1]
    by (simp add: other_stages_would_differ)
  have g2: "first_token_country french_unicodedata ''Aero Mongolia'' ?T = None"
    using aero [THEN conjunct2, THEN conjunct2, THEN conjunct2, THEN conjunct2, THEN conjunct2,
        THEN conjunct1]
    by (simp add: other_stages_would_differ)
  have chain: "map (spec_resolve french_unicodedata ?T) (direct_join registered_rows five_scores)
     = resolve_countries french_unicodedata registered_rows france_mapping five_scores"
    by (rule ram [THEN conjunct2, THEN conjunct2, THEN conjunct2, THEN conjunct2,
          THEN conjunct2, THEN conjunct2, THEN conjunct1, symmetric])
  have r: "map rs_country
      (resolve_countries french_unicodedata registered_rows france_mapping five_scores)
     = [Some ''Belgique'', Some ''France'', Some ''Mongolie'', Some ''Mongolie'', None]"
    by (simp add: five_scores_resolved brussels_resolved_def)
  note u = ram [THEN conjunct2, THEN conjunct2, THEN conjunct2, THEN conjunct2, THEN conjunct2,
      THEN conjunct2, THEN conjunct2, THEN conjunct1, rule_format, OF m c(1)]
  show ?thesis
    using u r mf e1 e2 g1 g2 by (simp only: c chain simp_thms)
qed

section \<open>Properties of the region join\<close>

lemma extra_row_member:
  "(c, reg) \<in> set EXTRA_REGION \<Longrightarrow> \<lparr> rg_country = Some c, rg_region = Some reg \<rparr> \<in> set extra_rows"
  by (force simp: extra_rows_def)

lemma extra_rows_regions: "m \<in> set extra_rows \<Longrightarrow> rg_region m \<noteq> None"
  by (auto simp: extra_rows_def)

lemma region_join_resolved:
  assumes "rs_country r = Some c"
  shows "region_join U M [r]
       = (let found = map rg_region
                (filter (\<lambda>m. normalize_str U (rg_country m) = normalize_str U (Some c)) M)
          in if found = [] then [with_region r None] else map (with_region r) found)"
  using assms by (simp add: region_join_def Let_def)

lemma region_join_mono:
  "r \<in> set rows \<Longrightarrow> set (region_join U M [r]) \<subseteq> set (region_join U M rows)"
  by (auto simp: region_join_def)

lemma region_join_member:
  assumes "r \<in> set rows" and "m \<in> set M"
    and "rs_country r = Some c" and "normalize_str U (rg_country m) = normalize_str U (Some c)"
  shows "with_region r (rg_region m) \<in> set (region_join U M rows)"
proof -
  define found where "found = map rg_region
     (filter (\<lambda>m. normalize_str U (rg_country m) = normalize_str U (Some c)) M)"
  have "m \<in> set (filter (\<lambda>m. normalize_str U (rg_country m) = normalize_str U (Some c)) M)"
    using assms(2,4) by simp
  then have f: "rg_region m \<in> set found"
    unfolding found_def by (simp only: set_map) (rule imageI)
  then have "found \<noteq> []" by auto
  with f have "with_region r (rg_region m) \<in> set (region_join U M [r])"
    by (simp add: region_join_resolved [OF assms(3)] found_def [symmetric])
  with region_join_mono [OF assms(1)] show ?thesis by blast
qed

text \<open>
  C10. The mapping that is joined is the file followed by four fixed rows: Philippines in
  Asia, Maroc in Africa, Mongolie in Asia, \<^verbatim>\<open>Etats-Unis\<close> (written with its accent) in North
  America. A row resolved to one of these four countries is therefore joined with the region
  of that row, whatever the file holds; and when the file has no row for the country, every
  row the join makes for it carries a region.
\<close>

theorem extra_regions_joined:
  assumes "(c, reg) \<in> set EXTRA_REGION" and "r \<in> set rows" and "rs_country r = Some c"
  shows "full_mapping mapping
           = mapping @
             [\<lparr> rg_country = Some ''Philippines'', rg_region = Some ''Asia'' \<rparr>,
              \<lparr> rg_country = Some ''Maroc'', rg_region = Some ''Africa'' \<rparr>,
              \<lparr> rg_country = Some ''Mongolie'', rg_region = Some ''Asia'' \<rparr>,
              \<lparr> rg_country = Some ([CHR 0xC3, CHR 0x89] @ ''tats-Unis''),
                 rg_region = Some ''North America'' \<rparr>]
       \<and> with_region r (Some reg) \<in> set (region_join U (full_mapping mapping) rows)
       \<and> ((\<forall>m \<in> set mapping. normalize_str U (rg_country m) \<noteq> normalize_str U (Some c)) \<longrightarrow>
            (\<forall>m \<in> set (region_join U (full_mapping mapping) [r]). mg_region m \<noteq> None))"
proof -
  have a: "full_mapping mapping
           = mapping @
             [\<lparr> rg_country = Some ''Philippines'', rg_region = Some ''Asia'' \<rparr>,
              \<lparr> rg_country = Some ''Maroc'', rg_region = Some ''Africa'' \<rparr>,
              \<lparr> rg_country = Some ''Mongolie'', rg_region = Some ''Asia'' \<rparr>,
              \<lparr> rg_country = Some ([CHR 0xC3, CHR 0x89] @ ''tats-Unis''),
                 rg_region = Some ''North America'' \<rparr>]"
    by (simp add: full_mapping_def extra_rows_def EXTRA_REGION_def)
  define x where "x = \<lparr> rg_country = Some c, rg_region = Some reg \<rparr>"
  have x: "x \<in> set (full_mapping mapping)"
    using extra_row_member [OF assms(1)] by (simp add: full_mapping_def x_def)
  have xr: "rg_region x = Some reg" and xc: "rg_country x = Some c" by (simp_all add: x_def)
  have b: "with_region r (Some reg) \<in> set (region_join U (full_mapping mapping) rows)"
    using region_join_member [OF assms(2) x assms(3)] by (simp add: xr xc)
  have c: "\<forall>m \<in> set (region_join U (full_mapping mapping) [r]). mg_region m \<noteq> None"
    if no: "\<forall>m \<in> set mapping. normalize_str U (rg_country m) \<noteq> normalize_str U (Some c)"
  proof -
    define P where "P = (\<lambda>m::region_row. normalize_str U (rg_country m) = normalize_str U (Some c))"
    define found where "found = map rg_region (filter P (full_mapping mapping))"
    have "filter P mapping = []" using no by (simp add: filter_empty_conv P_def)
    then have "found = map rg_region (filter P extra_rows)"
      by (simp add: found_def full_mapping_def)
    then have all: "\<forall>g \<in> set found. g \<noteq> None" using extra_rows_regions by auto
    have "x \<in> set (filter P (full_mapping mapping))" using x by (simp add: P_def xc)
    then have "rg_region x \<in> set found"
      unfolding found_def by (simp only: set_map) (rule imageI)
    then have ne: "found \<noteq> []" by auto
    have "region_join U (full_mapping mapping) [r] = map (with_region r) found"
      using ne by (simp add: region_join_resolved [OF assms(3)] found_def P_def)
    with all show ?thesis by (auto simp: with_region_def)
  qed
  from a b c show ?thesis by blast
qed

lemma maroc_join:
  "region_join french_unicodedata (full_mapping []) [maroc_resolved]
     = [with_region maroc_resolved (Some ''Africa'')]"
  by code_simp

lemma royal_star_merged:
  "merged_rows french_unicodedata [] [] [royal_star]
     = [\<lparr> mg_airline = Some ''Royal Star Aviation'', mg_modernity_index = Fin (1 / 2),
          mg_country = Some ([CHR 0xC3, CHR 0x89] @ ''tats-Unis''),
          mg_region = Some ''North America'' \<rparr>]"
  by code_simp

theorem extra_regions_joined_witness:
  "with_region maroc_resolved (Some ''Africa'')
     \<in> set (region_join french_unicodedata (full_mapping []) [maroc_resolved])
   \<and> None \<notin> mg_region ` set (region_join french_unicodedata (full_mapping []) [maroc_resolved])
   \<and> region_join french_unicodedata (full_mapping []) [maroc_resolved]
       = [with_region maroc_resolved (Some ''Africa'')]"
proof -
  have e: "(''Maroc'', ''Africa'') \<in> set EXTRA_REGION" by (simp add: EXTRA_REGION_def)
  have r: "maroc_resolved \<in> set [maroc_resolved]" by simp
  have c: "rs_country maroc_resolved = Some ''Maroc''" by (simp add: maroc_resolved_def)
  note t = extra_regions_joined [OF e r c, of "[]" french_unicodedata]
  have a: "with_region maroc_resolved (Some ''Africa'')
     \<in> set (region_join french_unicodedata (full_mapping []) [maroc_resolved])"
    by (rule t [THEN conjunct2, THEN conjunct1])
  have "\<forall>m \<in> set (region_join french_unicodedata (full_mapping []) [maroc_resolved]).
         mg_region m \<noteq> None"
    using t [THEN conjunct2, THEN conjunct2] by simp
  then have b: "None \<notin> mg_region `
      set (region_join french_unicodedata (full_mapping []) [maroc_resolved])"
    by (metis imageE)
  from a b maroc_join show ?thesis by (simp only: simp_thms)
qed

end
